theory Spec2Isabelle
  imports Complex_Main
begin

section \<open>Circleverse: household wealth formation\<close>

text \<open>
  A shallow embedding of \<^verbatim>\<open>simulation.py\<close>: the classes \<^verbatim>\<open>Dot\<close>,
  \<^verbatim>\<open>ClusterCube\<close>, \<^verbatim>\<open>Circlverse\<close> and \<^verbatim>\<open>CircleverseSimulation\<close>.

  Modelling conventions.
  \<^item> A Python \<^verbatim>\<open>int\<close> is an \<^typ>\<open>int\<close>. A Python \<^verbatim>\<open>float\<close> is a \<^typ>\<open>real\<close>,
    without infinity and NaN. The arithmetic of the household's month and of the
    statistics is exact. The arithmetic of \<^verbatim>\<open>calculate_gini_coefficient\<close>, whose result
    depends on rounding, passes every result through a rounding function \<open>rnd\<close>: the
    identity for exact arithmetic, \<open>binary64\<close> for doubles.
  \<^item> Every draw from the \<^verbatim>\<open>random\<close> module is an explicit argument of the function
    that draws it, so a statement for all arguments is a statement for all draws.
  \<^item> Objects are values: every \<^verbatim>\<open>Dot\<close> belongs to one \<^verbatim>\<open>ClusterCube\<close>, every
    \<^verbatim>\<open>ClusterCube\<close> to one \<^verbatim>\<open>Circlverse\<close>, every \<^verbatim>\<open>Circlverse\<close> to one
    simulation, as \<^verbatim>\<open>setup.py\<close> builds them. A method that mutates \<^verbatim>\<open>self\<close> returns
    the updated value.
  \<^item> A function of the source that only computes and can raise returns \<open>error + 'a\<close>.
    A method that mutates \<^verbatim>\<open>self\<close> and can raise returns the outcome together with
    the object as the call left it: \<open>error option \<times> 's\<close>, or \<open>(error + 'a) \<times> 's\<close> when
    it returns a value. \<open>Some e\<close> and \<open>Inl e\<close> say that \<open>e\<close> was raised.
\<close>

subsection \<open>Python operations that can raise\<close>

datatype error = ZeroDivisionError | IndexError | ValueError | TypeError

definition bnd :: "error + 'a \<Rightarrow> ('a \<Rightarrow> error + 'b) \<Rightarrow> error + 'b" where
  "bnd m f = (case m of Inl e \<Rightarrow> Inl e | Inr v \<Rightarrow> f v)"

text \<open>\<^verbatim>\<open>a / b\<close> on numbers.\<close>

definition py_div :: "real \<Rightarrow> real \<Rightarrow> error + real" where
  "py_div a b = (if b = 0 then Inl ZeroDivisionError else Inr (a / b))"

text \<open>\<^verbatim>\<open>xs[i]\<close>: a negative index counts from the end.\<close>

definition py_index :: "'a list \<Rightarrow> int \<Rightarrow> error + 'a" where
  "py_index xs i =
     (if 0 \<le> i \<and> i < int (length xs) then Inr (xs ! nat i)
      else if - int (length xs) \<le> i \<and> i < 0 then Inr (xs ! nat (int (length xs) + i))
      else Inl IndexError)"

text \<open>\<^verbatim>\<open>min(xs)\<close> and \<^verbatim>\<open>max(xs)\<close> raise \<^verbatim>\<open>ValueError\<close> on an empty list.\<close>

definition py_min :: "real list \<Rightarrow> error + real" where
  "py_min xs = (case xs of [] \<Rightarrow> Inl ValueError | y # ys \<Rightarrow> Inr (fold min ys y))"

definition py_max :: "real list \<Rightarrow> error + real" where
  "py_max xs = (case xs of [] \<Rightarrow> Inl ValueError | y # ys \<Rightarrow> Inr (fold max ys y))"

text \<open>
  \<^verbatim>\<open>random.choice(xs)\<close> raises \<^verbatim>\<open>IndexError\<close> on an empty list; otherwise it returns
  one element. The draw is the number \<open>k\<close>: every \<open>k\<close> selects an element, and every
  element is selected by some \<open>k\<close>.
\<close>

definition random_choice :: "nat \<Rightarrow> 'a list \<Rightarrow> error + 'a" where
  "random_choice k xs = (if xs = [] then Inl IndexError else Inr (xs ! (k mod length xs)))"

subsection \<open>Dot\<close>

datatype OccupationType = PROFESSIONAL | SKILLED_TRADE | SERVICE | RETAIL | UNEMPLOYED

fun OCCUPATION_INCOME :: "OccupationType \<Rightarrow> real" where
  "OCCUPATION_INCOME PROFESSIONAL = 8000"
| "OCCUPATION_INCOME SKILLED_TRADE = 5000"
| "OCCUPATION_INCOME SERVICE = 3000"
| "OCCUPATION_INCOME RETAIL = 2500"
| "OCCUPATION_INCOME UNEMPLOYED = 0"

record Dot =
  age :: int
  occupation :: OccupationType
  is_working :: bool

definition get_monthly_income :: "Dot \<Rightarrow> real" where
  "get_monthly_income d =
     (let base_income = OCCUPATION_INCOME (occupation d) in
      if \<not> is_working d then 0
      else
        let age_factor =
              (if 25 \<le> age d \<and> age d \<le> 50 then 1.2
               else if age d < 25 \<or> age d > 65 then 0.8
               else 1.0)
        in base_income * age_factor)"

subsection \<open>ClusterCube\<close>

text \<open>
  \<^verbatim>\<open>dots\<close> is \<^verbatim>\<open>None\<close> or a list: \<^verbatim>\<open>create_manual_circlverse\<close> passes \<^verbatim>\<open>None\<close> for a
  household without explicit members, and \<^verbatim>\<open>__post_init__\<close> replaces it only when
  \<^verbatim>\<open>num_dots\<close> is positive.
\<close>

record ClusterCube =
  cube_id :: string
  num_dots :: int
  dots :: "Dot list option"
  num_dependents :: int
  location :: "real \<times> real"
  current_wealth :: real
  savings_rate :: real
  monthly_expenses :: real
  wealth_history :: "real list"
  income_history :: "real list"
  expense_history :: "real list"

text \<open>
  \<^verbatim>\<open>_generate_dots\<close>: the \<open>i\<close>-th pass of the loop draws an age and an occupation,
  here \<open>draw i\<close>.
\<close>

definition generate_dots :: "(nat \<Rightarrow> int \<times> OccupationType) \<Rightarrow> ClusterCube \<Rightarrow> Dot list" where
  "generate_dots draw cube =
     map (\<lambda>i. let a = fst (draw i);
                   oc = (if a < 18 \<or> a > 65 then UNEMPLOYED else snd (draw i))
               in \<lparr>age = a, occupation = oc, is_working = (a \<ge> 18 \<and> a \<le> 65)\<rparr>)
         [0 ..< nat (num_dots cube)]"

definition calculate_base_expenses :: "ClusterCube \<Rightarrow> ClusterCube" where
  "calculate_base_expenses cube =
     (let base_housing = 1500 + (num_dots cube + num_dependents cube) * 400;
          base_food = 300 + (num_dots cube + num_dependents cube) * 150;
          base_other = 500 + (num_dots cube + num_dependents cube) * 100
      in cube\<lparr>monthly_expenses := real_of_int (base_housing + base_food + base_other)\<rparr>)"

text \<open>\<^verbatim>\<open>not self.dots\<close> holds for \<^verbatim>\<open>None\<close> and for the empty list.\<close>

definition post_init :: "(nat \<Rightarrow> int \<times> OccupationType) \<Rightarrow> ClusterCube \<Rightarrow> ClusterCube" where
  "post_init draw cube =
     calculate_base_expenses
       (if (dots cube = None \<or> dots cube = Some []) \<and> num_dots cube > 0
        then cube\<lparr>dots := Some (generate_dots draw cube)\<rparr>
        else cube)"

text \<open>
  The constructor with the fields \<^verbatim>\<open>setup.py\<close> passes (a caller who leaves \<^verbatim>\<open>dots\<close>
  out passes \<open>Some []\<close>, the default of the dataclass); the other fields take their
  defaults, then \<^verbatim>\<open>__post_init__\<close> runs.
\<close>

definition new_ClusterCube ::
  "(nat \<Rightarrow> int \<times> OccupationType) \<Rightarrow> string \<Rightarrow> int \<Rightarrow> Dot list option \<Rightarrow> int \<Rightarrow> real \<Rightarrow> real
     \<Rightarrow> ClusterCube" where
  "new_ClusterCube draw cid n ds deps rate w =
     post_init draw
       \<lparr>cube_id = cid, num_dots = n, dots = ds, num_dependents = deps,
        location = (0, 0), current_wealth = w, savings_rate = rate, monthly_expenses = 0,
        wealth_history = [], income_history = [], expense_history = []\<rparr>"

text \<open>Iterating over \<^verbatim>\<open>self.dots\<close> raises \<^verbatim>\<open>TypeError\<close> when it is \<^verbatim>\<open>None\<close>.\<close>

definition get_total_income :: "ClusterCube \<Rightarrow> error + real" where
  "get_total_income cube =
     (case dots cube of
        None \<Rightarrow> Inl TypeError
      | Some ds \<Rightarrow> Inr (sum_list (map get_monthly_income ds)))"

text \<open>The dictionary \<^verbatim>\<open>simulate_month\<close> returns; its keys are fixed.\<close>

record MonthReport =
  income :: real
  expenses :: real
  net_income :: real
  savings :: real
  wealth :: real

text \<open>
  \<open>u\<close> is the draw \<^verbatim>\<open>random.uniform(-0.1, 0.1)\<close>. The first statement calls
  \<^verbatim>\<open>get_total_income\<close>; when that raises, nothing has been assigned yet.
\<close>

definition simulate_month ::
  "real \<Rightarrow> real \<Rightarrow> real \<Rightarrow> ClusterCube \<Rightarrow> (error + MonthReport) \<times> ClusterCube" where
  "simulate_month cost_of_living_index economic_multiplier u cube =
     (case get_total_income cube of
        Inl e \<Rightarrow> (Inl e, cube)
      | Inr total_income \<Rightarrow>
          (let base_income = total_income * economic_multiplier;
               exp0 = monthly_expenses cube * cost_of_living_index;
               exp1 = exp0 * (1.0 + u);
               net = base_income - exp1;
               sav = (if net > 0 then net * savings_rate cube else 0);
               w = current_wealth cube + sav
           in (Inr \<lparr>income = base_income, expenses = exp1, net_income = net, savings = sav,
                     wealth = w\<rparr>,
               cube\<lparr>current_wealth := w,
                    wealth_history := wealth_history cube @ [w],
                    income_history := income_history cube @ [base_income],
                    expense_history := expense_history cube @ [exp1]\<rparr>)))"

text \<open>
  \<^verbatim>\<open>apply_economic_shock\<close>. \<^verbatim>\<open>working_dots\<close> holds references to elements of
  \<^verbatim>\<open>self.dots\<close>; here it holds their positions, and the assignment through the chosen
  reference is an update of the list at that position. \<open>k\<close> is the draw of
  \<^verbatim>\<open>random.choice\<close>. The comprehension iterates over \<^verbatim>\<open>self.dots\<close> and raises
  \<^verbatim>\<open>TypeError\<close> when it is \<^verbatim>\<open>None\<close>.
\<close>

definition working_dots :: "Dot list \<Rightarrow> nat list" where
  "working_dots ds =
     filter (\<lambda>i. is_working (ds ! i) \<and> occupation (ds ! i) \<noteq> UNEMPLOYED) [0 ..< length ds]"

definition apply_economic_shock ::
  "nat \<Rightarrow> string \<Rightarrow> real \<Rightarrow> ClusterCube \<Rightarrow> error option \<times> ClusterCube" where
  "apply_economic_shock k shock_type magnitude cube =
     (if shock_type = ''job_loss'' then
        (case dots cube of
           None \<Rightarrow> (Some TypeError, cube)
         | Some ds \<Rightarrow>
             (if working_dots ds \<noteq> [] then
                (case random_choice k (working_dots ds) of
                   Inl e \<Rightarrow> (Some e, cube)
                 | Inr i \<Rightarrow>
                     (None, cube\<lparr>dots := Some (ds
                        [i := (ds ! i)\<lparr>occupation := UNEMPLOYED, is_working := False\<rparr>])\<rparr>))
              else (None, cube)))
      else if shock_type = ''medical'' then
        (None, cube\<lparr>current_wealth := current_wealth cube + magnitude\<rparr>)
      else if shock_type = ''windfall'' then
        (None, cube\<lparr>current_wealth := current_wealth cube + magnitude\<rparr>)
      else (None, cube))"

subsection \<open>Circlverse\<close>

text \<open>
  The field \<^verbatim>\<open>wealth_history\<close> of \<^verbatim>\<open>Circlverse\<close> is \<open>cv_wealth_history\<close> here: the
  name \<open>wealth_history\<close> is the field of \<^verbatim>\<open>ClusterCube\<close>.
\<close>

record Circlverse =
  circlverse_id :: string
  radius :: real
  economic_multiplier :: real
  cost_of_living_index :: real
  cluster_cubes :: "ClusterCube list"
  total_wealth :: real
  average_wealth :: real
  cv_wealth_history :: "real list"

definition new_Circlverse :: "string \<Rightarrow> real \<Rightarrow> real \<Rightarrow> real \<Rightarrow> Circlverse" where
  "new_Circlverse cid r em col =
     \<lparr>circlverse_id = cid, radius = r, economic_multiplier = em, cost_of_living_index = col,
      cluster_cubes = [], total_wealth = 0, average_wealth = 0, cv_wealth_history = []\<rparr>"

text \<open>
  \<^verbatim>\<open>add_cluster_cube\<close>: \<open>angle\<close> and \<open>distance\<close> are the two draws of
  \<^verbatim>\<open>random.uniform\<close>.
\<close>

definition add_cluster_cube :: "real \<Rightarrow> real \<Rightarrow> ClusterCube \<Rightarrow> Circlverse \<Rightarrow> Circlverse" where
  "add_cluster_cube angle distance cube cv =
     cv\<lparr>cluster_cubes :=
          cluster_cubes cv @ [cube\<lparr>location := (distance * cos angle, distance * sin angle)\<rparr>]\<rparr>"

text \<open>\<^verbatim>\<open>_update_metrics\<close> assigns the total before it divides.\<close>

definition update_metrics :: "Circlverse \<Rightarrow> error option \<times> Circlverse" where
  "update_metrics cv =
     (if cluster_cubes cv \<noteq> [] then
        (let total = sum_list (map current_wealth (cluster_cubes cv));
             cv1 = cv\<lparr>total_wealth := total\<rparr>
         in case py_div total (real (length (cluster_cubes cv))) of
              Inl e \<Rightarrow> (Some e, cv1)
            | Inr avg \<Rightarrow>
                (None, cv1\<lparr>average_wealth := avg,
                           cv_wealth_history := cv_wealth_history cv @ [avg]\<rparr>))
      else (None, cv\<lparr>total_wealth := 0, average_wealth := 0,
                     cv_wealth_history := cv_wealth_history cv @ [0]\<rparr>))"

text \<open>
  The loop of \<^verbatim>\<open>Circlverse.simulate_month\<close> over the households: \<open>us i\<close> is the draw
  of the household at position \<open>i\<close>. When a household raises, the households before it
  have had their month and the others have not.
\<close>

fun simulate_cubes ::
  "real \<Rightarrow> real \<Rightarrow> (nat \<Rightarrow> real) \<Rightarrow> nat \<Rightarrow> ClusterCube list \<Rightarrow> error option \<times> ClusterCube list" where
  "simulate_cubes col em us i [] = (None, [])"
| "simulate_cubes col em us i (cube # cubes) =
     (case simulate_month col em (us i) cube of
        (Inl e, cube') \<Rightarrow> (Some e, cube' # cubes)
      | (Inr r, cube') \<Rightarrow>
          (case simulate_cubes col em us (Suc i) cubes of
             (outcome, cubes') \<Rightarrow> (outcome, cube' # cubes')))"

definition cv_simulate_month :: "(nat \<Rightarrow> real) \<Rightarrow> Circlverse \<Rightarrow> error option \<times> Circlverse" where
  "cv_simulate_month us cv =
     (case simulate_cubes (cost_of_living_index cv) (economic_multiplier cv) us 0 (cluster_cubes cv) of
        (Some e, cubes') \<Rightarrow> (Some e, cv\<lparr>cluster_cubes := cubes'\<rparr>)
      | (None, cubes') \<Rightarrow> update_metrics (cv\<lparr>cluster_cubes := cubes'\<rparr>))"

text \<open>
  The dictionaries of the statistics are association lists in the order of the literal;
  \<open>[]\<close> is the empty dictionary \<^verbatim>\<open>{}\<close>.
\<close>

definition get_wealth_distribution :: "Circlverse \<Rightarrow> error + (string \<times> real) list" where
  "get_wealth_distribution cv =
     (if cluster_cubes cv = [] then Inr []
      else
        (let wealths = map current_wealth (cluster_cubes cv) in
         bnd (py_min wealths) (\<lambda>mn.
         bnd (py_max wealths) (\<lambda>mx.
         bnd (py_div (sum_list wealths) (real (length wealths))) (\<lambda>mean.
         bnd (py_index (sort wealths) (int (length wealths) div 2)) (\<lambda>median.
         Inr [(''min'', mn), (''max'', mx), (''mean'', mean), (''median'', median),
              (''total'', sum_list wealths)]))))))"

subsection \<open>The Gini coefficient, with rounding\<close>

text \<open>
  Rounding to a double: to the nearest number with a significand of 53 bits, a tie to
  the one whose significand is even. The exponent is not bounded: \<open>binary64\<close> is the
  rounding of IEEE 754 on 0 and on results whose magnitude is at least \<open>2 powr -1022\<close> and
  rounds to less than \<open>2 powr 1024\<close>.
\<close>

definition round_even :: "real \<Rightarrow> int" where
  "round_even x =
     (let f = \<lfloor>x\<rfloor>; r = x - of_int f in
      if r < 1 / 2 then f
      else if r > 1 / 2 then f + 1
      else if even f then f else f + 1)"

definition binary64 :: "real \<Rightarrow> real" where
  "binary64 x =
     (if x = 0 then 0
      else let e = \<lfloor>log 2 \<bar>x\<bar>\<rfloor> - 52
           in of_int (round_even (x / 2 powr of_int e)) * 2 powr of_int e)"

text \<open>
  \<^verbatim>\<open>sum(xs)\<close> adds from left to right, starting at 0; \<open>rnd\<close> rounds each result.
  (CPython 3.12 and later carry the rounding errors of a sum of floats along and add
  them at the end; a sum whose steps are all exact is the same either way.)
\<close>

definition py_sum :: "(real \<Rightarrow> real) \<Rightarrow> real list \<Rightarrow> real" where
  "py_sum rnd xs = fold (\<lambda>x acc. rnd (acc + x)) xs 0"

text \<open>
  \<^verbatim>\<open>calculate_gini_coefficient\<close>: the loop over \<^verbatim>\<open>enumerate(wealths)\<close> is a fold
  with the accumulator \<^verbatim>\<open>cumsum\<close>. The product, the sum, the product \<^verbatim>\<open>n * sum(wealths)\<close>
  and the quotient are rounded.
\<close>

definition gini_cumsum :: "(real \<Rightarrow> real) \<Rightarrow> real list \<Rightarrow> real" where
  "gini_cumsum rnd wealths =
     fold (\<lambda>(i, w) cumsum.
             rnd (cumsum + rnd (w * real_of_int (2 * (int i + 1) - int (length wealths) - 1))))
       (enumerate 0 wealths) 0"

definition calculate_gini_coefficient :: "(real \<Rightarrow> real) \<Rightarrow> Circlverse \<Rightarrow> error + real" where
  "calculate_gini_coefficient rnd cv =
     (if cluster_cubes cv = [] \<or> length (cluster_cubes cv) < 2 then Inr 0.0
      else
        (let wealths = sort (map current_wealth (cluster_cubes cv));
             n = length wealths;
             cumsum = gini_cumsum rnd wealths
         in if py_sum rnd wealths = 0 then Inr 0.0
            else bnd (py_div cumsum (rnd (real n * py_sum rnd wealths))) (\<lambda>q. Inr (rnd q))))"

text \<open>Exact arithmetic: nothing is rounded.\<close>

definition exact :: "real \<Rightarrow> real" where
  "exact x = x"

text \<open>The double nearest to 0.1, the value of the Python literal \<^verbatim>\<open>0.1\<close>.\<close>

definition tenth :: real where
  "tenth = 3602879701896397 / 36028797018963968"

subsection \<open>CircleverseSimulation\<close>

record CircleverseSimulation =
  circlverses :: "Circlverse list"
  current_month :: int
  is_paused :: bool
  simulation_speed :: int

definition new_CircleverseSimulation :: CircleverseSimulation where
  "new_CircleverseSimulation =
     \<lparr>circlverses = [], current_month = 0, is_paused = False, simulation_speed = 1\<rparr>"

definition add_circlverse :: "Circlverse \<Rightarrow> CircleverseSimulation \<Rightarrow> CircleverseSimulation" where
  "add_circlverse cv sim = sim\<lparr>circlverses := circlverses sim @ [cv]\<rparr>"

text \<open>
  The inner loop of \<^verbatim>\<open>step\<close> over the communities: \<open>d j i\<close> is the draw of household
  \<open>i\<close> of the community at position \<open>j\<close>. When a community raises, the loop ends there.
\<close>

fun simulate_circlverses ::
  "(nat \<Rightarrow> nat \<Rightarrow> real) \<Rightarrow> nat \<Rightarrow> Circlverse list \<Rightarrow> error option \<times> Circlverse list" where
  "simulate_circlverses d j [] = (None, [])"
| "simulate_circlverses d j (cv # cvs) =
     (case cv_simulate_month (d j) cv of
        (Some e, cv') \<Rightarrow> (Some e, cv' # cvs)
      | (None, cv') \<Rightarrow>
          (case simulate_circlverses d (Suc j) cvs of
             (outcome, cvs') \<Rightarrow> (outcome, cv' # cvs')))"

text \<open>
  One pass of the outer loop of \<^verbatim>\<open>step\<close>: every community simulates a month, then
  the counter goes up by one. A pass that raises leaves the counter as it was.
\<close>

definition one_month ::
  "(nat \<Rightarrow> nat \<Rightarrow> real) \<Rightarrow> CircleverseSimulation \<Rightarrow> error option \<times> CircleverseSimulation" where
  "one_month d sim =
     (case simulate_circlverses d 0 (circlverses sim) of
        (Some e, cvs) \<Rightarrow> (Some e, sim\<lparr>circlverses := cvs\<rparr>)
      | (None, cvs) \<Rightarrow> (None, sim\<lparr>circlverses := cvs, current_month := current_month sim + 1\<rparr>))"

text \<open>\<open>step_loop d m n\<close> runs the passes \<open>m, m + 1, \<dots>, m + n - 1\<close> of the loop.\<close>

fun step_loop ::
  "(nat \<Rightarrow> nat \<Rightarrow> nat \<Rightarrow> real) \<Rightarrow> nat \<Rightarrow> nat \<Rightarrow> CircleverseSimulation
     \<Rightarrow> error option \<times> CircleverseSimulation" where
  "step_loop d m 0 sim = (None, sim)"
| "step_loop d m (Suc n) sim =
     (case one_month (d m) sim of
        (Some e, sim') \<Rightarrow> (Some e, sim')
      | (None, sim') \<Rightarrow> step_loop d (Suc m) n sim')"

text \<open>\<^verbatim>\<open>range(months)\<close> is empty when \<^verbatim>\<open>months\<close> is negative.\<close>

definition step ::
  "(nat \<Rightarrow> nat \<Rightarrow> nat \<Rightarrow> real) \<Rightarrow> int \<Rightarrow> CircleverseSimulation
     \<Rightarrow> error option \<times> CircleverseSimulation" where
  "step d months sim = (if is_paused sim then (None, sim) else step_loop d 0 (nat months) sim)"

definition pause :: "CircleverseSimulation \<Rightarrow> CircleverseSimulation" where
  "pause sim = sim\<lparr>is_paused := True\<rparr>"

definition resume :: "CircleverseSimulation \<Rightarrow> CircleverseSimulation" where
  "resume sim = sim\<lparr>is_paused := False\<rparr>"

definition reset :: "CircleverseSimulation \<Rightarrow> CircleverseSimulation" where
  "reset sim =
     sim\<lparr>current_month := 0,
         circlverses :=
           map (\<lambda>cv. cv\<lparr>cluster_cubes :=
                          map (\<lambda>cube. cube\<lparr>current_wealth := 0.0, wealth_history := [],
                                           income_history := [], expense_history := []\<rparr>)
                            (cluster_cubes cv),
                        cv_wealth_history := []\<rparr>)
             (circlverses sim)\<rparr>"

datatype pyval = IntV int | FloatV real

definition get_global_statistics :: "CircleverseSimulation \<Rightarrow> error + (string \<times> pyval) list" where
  "get_global_statistics sim =
     (let all_wealths = concat (map (\<lambda>cv. map current_wealth (cluster_cubes cv)) (circlverses sim))
      in if all_wealths = [] then Inr []
         else
           bnd (py_div (sum_list all_wealths) (real (length all_wealths))) (\<lambda>avg.
           bnd (py_min all_wealths) (\<lambda>mn.
           bnd (py_max all_wealths) (\<lambda>mx.
           Inr [(''total_households'',
                   IntV (sum_list (map (\<lambda>cv. int (length (cluster_cubes cv))) (circlverses sim)))),
                (''total_circlverses'', IntV (int (length (circlverses sim)))),
                (''current_month'', IntV (current_month sim)),
                (''global_avg_wealth'', FloatV avg),
                (''global_total_wealth'', FloatV (sum_list all_wealths)),
                (''global_min_wealth'', FloatV mn),
                (''global_max_wealth'', FloatV mx)]))))"

subsection \<open>Households with a member list\<close>

definition has_dots :: "ClusterCube \<Rightarrow> bool" where
  "has_dots cube = (dots cube \<noteq> None)"

definition cv_has_dots :: "Circlverse \<Rightarrow> bool" where
  "cv_has_dots cv = list_all has_dots (cluster_cubes cv)"

definition sim_has_dots :: "CircleverseSimulation \<Rightarrow> bool" where
  "sim_has_dots sim = list_all cv_has_dots (circlverses sim)"

section \<open>Stepping\<close>

lemma bnd_Inr [simp]: "bnd (Inr v) f = f v"
  by (simp add: bnd_def)

lemma bnd_Inl [simp]: "bnd (Inl e) f = Inl e"
  by (simp add: bnd_def)

lemma simulate_month_dots: "dots (snd (simulate_month col em u cube)) = dots cube"
  by (simp add: simulate_month_def get_total_income_def Let_def split: option.split)

lemma simulate_month_has_dots:
  assumes "has_dots cube"
  shows "\<exists>r cube'. simulate_month col em u cube = (Inr r, cube') \<and> has_dots cube'"
  using assms
  by (auto simp: has_dots_def simulate_month_def get_total_income_def Let_def)

lemma simulate_cubes_has_dots:
  "list_all has_dots cubes \<Longrightarrow>
     \<exists>cubes'. simulate_cubes col em us i cubes = (None, cubes') \<and> list_all has_dots cubes'
        \<and> length cubes' = length cubes"
proof (induction cubes arbitrary: i)
  case Nil
  then show ?case by simp
next
  case (Cons c cs)
  from Cons.prems obtain r c' where c': "simulate_month col em (us i) c = (Inr r, c')" "has_dots c'"
    using simulate_month_has_dots [of c col em "us i"] by auto
  from Cons obtain cs' where "simulate_cubes col em us (Suc i) cs = (None, cs')"
    "list_all has_dots cs'" "length cs' = length cs" by fastforce
  with c' show ?case by simp
qed

lemma update_metrics_returns:
  "\<exists>cv'. update_metrics cv = (None, cv') \<and> cluster_cubes cv' = cluster_cubes cv"
  by (simp add: update_metrics_def py_div_def Let_def)

lemma cv_simulate_month_has_dots:
  assumes "cv_has_dots cv"
  shows "\<exists>cv'. cv_simulate_month us cv = (None, cv') \<and> cv_has_dots cv'"
proof -
  from assms obtain cs' where cs': "simulate_cubes (cost_of_living_index cv) (economic_multiplier cv)
      us 0 (cluster_cubes cv) = (None, cs')" "list_all has_dots cs'"
    using simulate_cubes_has_dots [of "cluster_cubes cv"] unfolding cv_has_dots_def by blast
  obtain cv' where "update_metrics (cv\<lparr>cluster_cubes := cs'\<rparr>) = (None, cv')"
    "cluster_cubes cv' = cluster_cubes (cv\<lparr>cluster_cubes := cs'\<rparr>)"
    using update_metrics_returns by blast
  with cs' show ?thesis by (simp add: cv_simulate_month_def cv_has_dots_def)
qed

lemma simulate_circlverses_has_dots:
  "list_all cv_has_dots cvs \<Longrightarrow>
     \<exists>cvs'. simulate_circlverses d j cvs = (None, cvs') \<and> list_all cv_has_dots cvs'"
proof (induction cvs arbitrary: j)
  case Nil
  then show ?case by simp
next
  case (Cons cv cvs)
  from Cons.prems obtain cv' where cv': "cv_simulate_month (d j) cv = (None, cv')" "cv_has_dots cv'"
    using cv_simulate_month_has_dots [of cv "d j"] by auto
  from Cons obtain cvs' where "simulate_circlverses d (Suc j) cvs = (None, cvs')"
    "list_all cv_has_dots cvs'" by fastforce
  with cv' show ?case by simp
qed

text \<open>A pass that returns has raised the counter by one; no pass changes the flag.\<close>

lemma one_month_returned:
  assumes "one_month d sim = (None, sim')"
  shows "current_month sim' = current_month sim + 1 \<and> is_paused sim' = is_paused sim"
  using assms by (auto simp: one_month_def split: prod.splits option.splits)

lemma one_month_has_dots:
  assumes "sim_has_dots sim"
  shows "\<exists>sim'. one_month d sim = (None, sim') \<and> current_month sim' = current_month sim + 1
      \<and> is_paused sim' = is_paused sim \<and> sim_has_dots sim'"
proof -
  from assms obtain cvs' where "simulate_circlverses d 0 (circlverses sim) = (None, cvs')"
    "list_all cv_has_dots cvs'"
    using simulate_circlverses_has_dots [of "circlverses sim"] unfolding sim_has_dots_def by blast
  then show ?thesis by (simp add: one_month_def sim_has_dots_def)
qed

lemma step_loop_has_dots:
  "sim_has_dots sim \<Longrightarrow>
     \<exists>sim'. step_loop d m n sim = (None, sim') \<and> current_month sim' = current_month sim + int n
      \<and> is_paused sim' = is_paused sim \<and> sim_has_dots sim'"
proof (induction n arbitrary: m sim)
  case 0
  then show ?case by simp
next
  case (Suc n)
  from one_month_has_dots [OF Suc.prems, of "d m"] obtain s1 where s1:
    "one_month (d m) sim = (None, s1)" "current_month s1 = current_month sim + 1"
    "is_paused s1 = is_paused sim" "sim_has_dots s1" by blast
  from Suc.IH [OF s1(4), of "Suc m"] obtain s2 where "step_loop d (Suc m) n s1 = (None, s2)"
    "current_month s2 = current_month s1 + int n" "is_paused s2 = is_paused s1" "sim_has_dots s2"
    by blast
  with s1 show ?case by simp
qed

lemma step_paused: "is_paused sim \<Longrightarrow> step d months sim = (None, sim)"
  by (simp add: step_def)

lemma step_running:
  assumes "\<not> is_paused sim" "sim_has_dots sim"
  shows "\<exists>sim'. step d months sim = (None, sim') \<and> \<not> is_paused sim' \<and> sim_has_dots sim'
      \<and> current_month sim' = current_month sim + max 0 months"
proof -
  from step_loop_has_dots [OF assms(2), of d 0 "nat months"] obtain s where
    "step_loop d 0 (nat months) sim = (None, s)"
    "current_month s = current_month sim + int (nat months)" "is_paused s = is_paused sim"
    "sim_has_dots s" by blast
  with assms show ?thesis by (auto simp: step_def max_def)
qed

lemma step_one_returned:
  assumes "\<not> is_paused sim" "step d 1 sim = (None, sim')"
  shows "current_month sim' = current_month sim + 1 \<and> is_paused sim' = is_paused sim"
proof -
  from assms have "step_loop d 0 (Suc 0) sim = (None, sim')" by (simp add: step_def)
  then have "one_month (d 0) sim = (None, sim')"
    by (auto split: prod.splits option.splits)
  then show ?thesis by (rule one_month_returned)
qed

text \<open>
  \<^verbatim>\<open>run_until\<close>: a \<^verbatim>\<open>while\<close> loop around \<^verbatim>\<open>step(1)\<close>. \<open>d k\<close> holds the draws
  of the \<open>k\<close>-th call of \<^verbatim>\<open>step\<close>. The loop ends because an unpaused \<^verbatim>\<open>step(1)\<close>
  that returns has raised the counter, and one that raises ends the loop.
\<close>

function run_until_loop ::
  "(nat \<Rightarrow> nat \<Rightarrow> nat \<Rightarrow> nat \<Rightarrow> real) \<Rightarrow> nat \<Rightarrow> int \<Rightarrow> CircleverseSimulation
     \<Rightarrow> error option \<times> CircleverseSimulation" where
  "run_until_loop d k target_month sim =
     (if current_month sim < target_month \<and> \<not> is_paused sim then
        (case step (d k) 1 sim of
           (Some e, sim') \<Rightarrow> (Some e, sim')
         | (None, sim') \<Rightarrow> run_until_loop d (Suc k) target_month sim')
      else (None, sim))"
  by pat_completeness auto
termination
proof (relation "measure (\<lambda>(d, k, target_month, sim). nat (target_month - current_month sim))")
  show "wf (measure (\<lambda>(d, k, target_month, sim). nat (target_month - current_month sim)))"
    by simp
next
  fix d :: "nat \<Rightarrow> nat \<Rightarrow> nat \<Rightarrow> nat \<Rightarrow> real" and k target_month sim x sim' y
  assume a: "current_month sim < target_month \<and> \<not> is_paused sim"
    and b: "(x, sim') = step (d k) 1 sim" and c: "x = None"
  from b c have "step (d k) 1 sim = (None, sim')" by simp
  with a have "current_month sim' = current_month sim + 1" using step_one_returned by blast
  with a show "((d, Suc k, target_month, sim'), (d, k, target_month, sim))
      \<in> measure (\<lambda>(d, k, target_month, sim). nat (target_month - current_month sim))"
    by simp
qed

definition run_until ::
  "(nat \<Rightarrow> nat \<Rightarrow> nat \<Rightarrow> nat \<Rightarrow> real) \<Rightarrow> int \<Rightarrow> CircleverseSimulation
     \<Rightarrow> error option \<times> CircleverseSimulation" where
  "run_until d target_month sim = run_until_loop d 0 target_month sim"

declare run_until_loop.simps [simp del]

lemma run_until_loop_paused: "is_paused sim \<Longrightarrow> run_until_loop d k t sim = (None, sim)"
  by (simp add: run_until_loop.simps)

lemma run_until_loop_running:
  "\<not> is_paused sim \<Longrightarrow> sim_has_dots sim \<Longrightarrow>
     \<exists>sim'. run_until_loop d k t sim = (None, sim') \<and> \<not> is_paused sim' \<and> sim_has_dots sim'
      \<and> current_month sim' = max (current_month sim) t"
proof (induction d k t sim rule: run_until_loop.induct)
  case (1 d k t sim)
  show ?case
  proof (cases "current_month sim < t")
    case True
    from step_running [OF 1(2) 1(3), of "d k" 1] obtain s where s: "step (d k) 1 sim = (None, s)"
      "\<not> is_paused s" "sim_has_dots s" "current_month s = current_month sim + 1" by auto
    from 1(1) [of None s] True 1(2) s obtain s' where
      "run_until_loop d (Suc k) t s = (None, s')"
      "\<not> is_paused s'" "sim_has_dots s'" "current_month s' = max (current_month s) t" by auto
    with True 1(2) s show ?thesis
      by (subst run_until_loop.simps) (auto simp: max_def)
  next
    case False
    with 1(2) 1(3) show ?thesis by (subst run_until_loop.simps) (auto simp: max_def)
  qed
qed

subsection \<open>Sequences of operations\<close>

text \<open>
  The operations a caller performs on a simulation. \<open>Touch f\<close> is any operation on
  the communities and households the simulation holds (\<^verbatim>\<open>add_cluster_cube\<close>,
  \<^verbatim>\<open>apply_economic_shock\<close>, an assignment to a field): none of them reaches the
  counter or the flag of the simulation. A sequence ends at the first operation that
  raises.
\<close>

datatype operation =
    AddCirclverse Circlverse
  | Step "nat \<Rightarrow> nat \<Rightarrow> nat \<Rightarrow> real" int
  | RunUntil "nat \<Rightarrow> nat \<Rightarrow> nat \<Rightarrow> nat \<Rightarrow> real" int
  | Pause
  | Resume
  | Reset
  | Touch "Circlverse list \<Rightarrow> Circlverse list"

fun perform :: "operation \<Rightarrow> CircleverseSimulation \<Rightarrow> error option \<times> CircleverseSimulation" where
  "perform (AddCirclverse cv) sim = (None, add_circlverse cv sim)"
| "perform (Step d months) sim = step d months sim"
| "perform (RunUntil d target_month) sim = run_until d target_month sim"
| "perform Pause sim = (None, pause sim)"
| "perform Resume sim = (None, resume sim)"
| "perform Reset sim = (None, reset sim)"
| "perform (Touch f) sim = (None, sim\<lparr>circlverses := f (circlverses sim)\<rparr>)"

fun run_ops :: "operation list \<Rightarrow> CircleverseSimulation \<Rightarrow> error option \<times> CircleverseSimulation" where
  "run_ops [] sim = (None, sim)"
| "run_ops (x # xs) sim =
     (case perform x sim of
        (Some e, sim') \<Rightarrow> (Some e, sim')
      | (None, sim') \<Rightarrow> run_ops xs sim')"

text \<open>
  The operations that leave every household with a member list: a community added has
  them, and an operation on the communities keeps them.
\<close>

fun keeps_dots :: "operation \<Rightarrow> bool" where
  "keeps_dots (AddCirclverse cv) = cv_has_dots cv"
| "keeps_dots (Touch f) = (\<forall>cvs. list_all cv_has_dots cvs \<longrightarrow> list_all cv_has_dots (f cvs))"
| "keeps_dots x = True"

text \<open>
  The count the specification names: the calls of \<^verbatim>\<open>step\<close> a caller made since
  construction or the last reset, each counted once whatever its argument.
\<close>

fun step_calls :: "nat \<Rightarrow> operation list \<Rightarrow> nat" where
  "step_calls n [] = n"
| "step_calls n (Step d months # ops) = step_calls (Suc n) ops"
| "step_calls n (Reset # ops) = step_calls 0 ops"
| "step_calls n (x # ops) = step_calls n ops"

text \<open>
  The months simulated since construction or the last reset, read off the calls alone:
  \<open>paused\<close> is the flag and \<open>m\<close> the months so far.
\<close>

fun months_elapsed :: "bool \<Rightarrow> int \<Rightarrow> operation list \<Rightarrow> int" where
  "months_elapsed paused m [] = m"
| "months_elapsed paused m (Step d months # ops) =
     months_elapsed paused (if paused then m else m + max 0 months) ops"
| "months_elapsed paused m (RunUntil d target_month # ops) =
     months_elapsed paused (if paused then m else max m target_month) ops"
| "months_elapsed paused m (Pause # ops) = months_elapsed True m ops"
| "months_elapsed paused m (Resume # ops) = months_elapsed False m ops"
| "months_elapsed paused m (Reset # ops) = months_elapsed paused 0 ops"
| "months_elapsed paused m (AddCirclverse cv # ops) = months_elapsed paused m ops"
| "months_elapsed paused m (Touch f # ops) = months_elapsed paused m ops"

fun single_step :: "operation \<Rightarrow> bool" where
  "single_step (Step d months) = (months = 1)"
| "single_step x = False"

text \<open>The operations that advance the clock.\<close>

fun stepping :: "operation \<Rightarrow> bool" where
  "stepping (Step d months) = True"
| "stepping (RunUntil d target_month) = True"
| "stepping x = False"

subsection \<open>The scenario of the specification\<close>

definition no_variance :: "nat \<Rightarrow> nat \<Rightarrow> nat \<Rightarrow> real" where
  "no_variance m j i = 0"

definition no_variances :: "nat \<Rightarrow> nat \<Rightarrow> nat \<Rightarrow> nat \<Rightarrow> real" where
  "no_variances k m j i = 0"

definition scenario_dots :: "Dot list" where
  "scenario_dots =
     [\<lparr>age = 35, occupation = PROFESSIONAL, is_working = True\<rparr>,
      \<lparr>age = 32, occupation = UNEMPLOYED, is_working = False\<rparr>]"

definition scenario_cube :: ClusterCube where
  "scenario_cube =
     new_ClusterCube (\<lambda>i. (30, SERVICE)) ''HH001'' 2 (Some scenario_dots) 0 0.20 0"

definition scenario_town :: Circlverse where
  "scenario_town = add_cluster_cube 0 0 scenario_cube (new_Circlverse ''Town_01'' 100.0 1.0 1.0)"

definition scenario_sim :: CircleverseSimulation where
  "scenario_sim = add_circlverse scenario_town new_CircleverseSimulation"

text \<open>
  The household \<^verbatim>\<open>create_manual_circlverse\<close> builds from the configuration
  \<^verbatim>\<open>{'num_dots': 0}\<close> in a community named \<^verbatim>\<open>T\<close>: no explicit members, so \<^verbatim>\<open>dots=None\<close>
  is passed, and \<^verbatim>\<open>num_dots\<close> is not positive, so it stays.
\<close>

definition orphan_cube :: ClusterCube where
  "orphan_cube = new_ClusterCube (\<lambda>i. (30, SERVICE)) ''T_HH001'' 0 None 0 0.15 0"

text \<open>The household of the scenario after its professional lost the job.\<close>

definition idle_cube :: ClusterCube where
  "idle_cube = scenario_cube\<lparr>dots := Some
     [\<lparr>age = 35, occupation = UNEMPLOYED, is_working = False\<rparr>,
      \<lparr>age = 32, occupation = UNEMPLOYED, is_working = False\<rparr>]\<rparr>"

text \<open>A paused simulation two months in, written out.\<close>

definition worn_sim :: CircleverseSimulation where
  "worn_sim =
     \<lparr>circlverses =
        [scenario_town\<lparr>cluster_cubes :=
           [idle_cube\<lparr>current_wealth := 2400, wealth_history := [1200, 2400],
                      income_history := [9600, 9600], expense_history := [3600, 3600]\<rparr>],
           total_wealth := 2400, average_wealth := 2400, cv_wealth_history := [1200, 2400]\<rparr>],
      current_month = 2, is_paused = True, simulation_speed = 1\<rparr>"

text \<open>A community whose households have the given wealths.\<close>

definition town_with_wealths :: "real list \<Rightarrow> Circlverse" where
  "town_with_wealths ws =
     (new_Circlverse ''Town_02'' 100.0 1.0 1.0)
       \<lparr>cluster_cubes := map (\<lambda>w. scenario_cube\<lparr>current_wealth := w\<rparr>) ws\<rparr>"

text \<open>An operation on the communities: the economy of every community doubles.\<close>

definition boom :: "Circlverse list \<Rightarrow> Circlverse list" where
  "boom cvs = map (\<lambda>cv. cv\<lparr>economic_multiplier := 2 * economic_multiplier cv\<rparr>) cvs"

lemma scenario_cube_eq:
  "scenario_cube =
     \<lparr>cube_id = ''HH001'', num_dots = 2, dots = Some scenario_dots, num_dependents = 0,
      location = (0, 0), current_wealth = 0, savings_rate = 0.20, monthly_expenses = 3600,
      wealth_history = [], income_history = [], expense_history = []\<rparr>"
  by (simp add: scenario_cube_def new_ClusterCube_def post_init_def calculate_base_expenses_def
      scenario_dots_def)

lemma orphan_cube_eq:
  "orphan_cube =
     \<lparr>cube_id = ''T_HH001'', num_dots = 0, dots = None, num_dependents = 0,
      location = (0, 0), current_wealth = 0, savings_rate = 0.15, monthly_expenses = 2300,
      wealth_history = [], income_history = [], expense_history = []\<rparr>"
  by (simp add: orphan_cube_def new_ClusterCube_def post_init_def calculate_base_expenses_def)

section \<open>The household's month\<close>

text \<open>
  Claim C1. The household of the scenario (a working professional aged 35, an unemployed
  member aged 32 who is not working, two members, no dependents, savings rate 0.20) has
  the expense baseline 3600 after construction, whatever its identifier; one call of
  \<^verbatim>\<open>simulate_month\<close> with both indices 1.0 and the variance draw 0 returns the report
  income 9600, expenses 3600, net income 6000, savings 1200 and wealth 1200, and leaves
  the current wealth 1200, recorded as the first entry of the wealth history.
\<close>

theorem scenario_first_month:
  "monthly_expenses (new_ClusterCube draw cid 2 (Some scenario_dots) 0 0.20 0) = 3600 \<and>
   fst (simulate_month 1.0 1.0 0 (new_ClusterCube draw cid 2 (Some scenario_dots) 0 0.20 0)) =
     Inr \<lparr>income = 9600, expenses = 3600, net_income = 6000, savings = 1200, wealth = 1200\<rparr> \<and>
   current_wealth
     (snd (simulate_month 1.0 1.0 0 (new_ClusterCube draw cid 2 (Some scenario_dots) 0 0.20 0)))
     = 1200 \<and>
   wealth_history
     (snd (simulate_month 1.0 1.0 0 (new_ClusterCube draw cid 2 (Some scenario_dots) 0 0.20 0)))
     = [1200]"
  by (simp add: new_ClusterCube_def post_init_def calculate_base_expenses_def scenario_dots_def
      simulate_month_def get_total_income_def get_monthly_income_def Let_def)

text \<open>
  For a household with a member list (an empty one included), both indices and every
  variance draw, whatever the sign of the net income, \<^verbatim>\<open>simulate_month\<close> returns and
  appends exactly one element to each of the three histories.
\<close>

lemma simulate_month_appends_one:
  assumes "dots cube = Some ds"
  shows "(\<exists>r. fst (simulate_month col em u cube) = Inr r) \<and>
   (\<exists>w. wealth_history (snd (simulate_month col em u cube)) = wealth_history cube @ [w]) \<and>
   (\<exists>x. income_history (snd (simulate_month col em u cube)) = income_history cube @ [x]) \<and>
   (\<exists>e. expense_history (snd (simulate_month col em u cube)) = expense_history cube @ [e]) \<and>
   length (wealth_history (snd (simulate_month col em u cube))) = length (wealth_history cube) + 1"
  using assms by (simp add: simulate_month_def get_total_income_def Let_def)

text \<open>
  Claim C2 fails on the code at a household whose \<^verbatim>\<open>dots\<close> is \<^verbatim>\<open>None\<close>, as
  \<^verbatim>\<open>create_manual_circlverse\<close> builds it from \<^verbatim>\<open>{'num_dots': 0}\<close>: \<^verbatim>\<open>simulate_month\<close>
  raises \<^verbatim>\<open>TypeError\<close> in \<^verbatim>\<open>get_total_income\<close> and appends nothing, so the three
  histories keep their lengths.
\<close>

theorem simulate_month_without_member_list:
  "dots orphan_cube = None \<and>
   simulate_month 1 1 0 orphan_cube = (Inl TypeError, orphan_cube) \<and>
   length (wealth_history (snd (simulate_month 1 1 0 orphan_cube)))
     = length (wealth_history orphan_cube) \<and>
   length (income_history (snd (simulate_month 1 1 0 orphan_cube)))
     = length (income_history orphan_cube) \<and>
   length (expense_history (snd (simulate_month 1 1 0 orphan_cube)))
     = length (expense_history orphan_cube)"
  by (simp add: orphan_cube_eq simulate_month_def get_total_income_def)



section \<open>The simulation's clock\<close>

text \<open>
  Claim C5. When the paused flag is set, \<^verbatim>\<open>step(n)\<close> returns without raising and
  the simulation after the call is the simulation before it, for every \<open>n\<close> and all
  draws: the counter, the flag, and every community with its metrics, its wealth
  history and its households (wealth and the three histories) are the same.
\<close>

theorem step_while_paused:
  assumes "is_paused sim"
  shows "step d n sim = (None, sim)"
  using assms by (simp add: step_def)

theorem step_while_paused_witness:
  "is_paused (pause scenario_sim) \<and>
   step no_variance 5 (pause scenario_sim) = (None, pause scenario_sim)"
  using step_while_paused [of "pause scenario_sim" no_variance 5]
  by (simp add: pause_def)

section \<open>Shocks\<close>





text \<open>Every member who is working and not unemployed is hit by some draw.\<close>

lemma job_loss_reaches_every_worker:
  assumes "dots cube = Some ds" "i < length ds" "is_working (ds ! i)"
    "occupation (ds ! i) \<noteq> UNEMPLOYED"
  shows "\<exists>k. apply_economic_shock k ''job_loss'' magnitude cube =
           (None, cube\<lparr>dots := Some (ds
                  [i := (ds ! i)\<lparr>occupation := UNEMPLOYED, is_working := False\<rparr>])\<rparr>)"
proof -
  from assms have "i \<in> set (working_dots ds)" by (simp add: working_dots_def)
  then obtain k where k: "k < length (working_dots ds)" "working_dots ds ! k = i"
    unfolding in_set_conv_nth by blast
  from k have ne: "working_dots ds \<noteq> []" by auto
  from k have "k mod length (working_dots ds) = k" by simp
  with ne k have rc: "random_choice k (working_dots ds) = Inr i"
    by (simp add: random_choice_def)
  have "apply_economic_shock k ''job_loss'' magnitude cube =
           (None, cube\<lparr>dots := Some (ds
                  [i := (ds ! i)\<lparr>occupation := UNEMPLOYED, is_working := False\<rparr>])\<rparr>)"
    unfolding apply_economic_shock_def using ne rc assms(1) by simp
  then show ?thesis by blast
qed

section \<open>Reset\<close>

text \<open>
  Claim C8. \<^verbatim>\<open>reset\<close> sets the counter to 0. It keeps the list of communities and,
  in each, the list of households, position by position. Every community after it has
  an empty wealth history and its old identifier, radius, economic multiplier and cost
  of living index. Every household after it has wealth 0 and three empty histories, and
  its old identifier, member count, members (occupation and working state included),
  dependents, location, savings rate and expense baseline.
\<close>

theorem reset_effect:
  "current_month (reset sim) = 0 \<and>
   length (circlverses (reset sim)) = length (circlverses sim) \<and>
   (\<forall>i<length (circlverses sim).
      cv_wealth_history (circlverses (reset sim) ! i) = [] \<and>
      circlverse_id (circlverses (reset sim) ! i) = circlverse_id (circlverses sim ! i) \<and>
      radius (circlverses (reset sim) ! i) = radius (circlverses sim ! i) \<and>
      economic_multiplier (circlverses (reset sim) ! i) = economic_multiplier (circlverses sim ! i) \<and>
      cost_of_living_index (circlverses (reset sim) ! i) = cost_of_living_index (circlverses sim ! i) \<and>
      length (cluster_cubes (circlverses (reset sim) ! i)) = length (cluster_cubes (circlverses sim ! i)) \<and>
      (\<forall>j<length (cluster_cubes (circlverses sim ! i)).
         current_wealth (cluster_cubes (circlverses (reset sim) ! i) ! j) = 0 \<and>
         wealth_history (cluster_cubes (circlverses (reset sim) ! i) ! j) = [] \<and>
         income_history (cluster_cubes (circlverses (reset sim) ! i) ! j) = [] \<and>
         expense_history (cluster_cubes (circlverses (reset sim) ! i) ! j) = [] \<and>
         cube_id (cluster_cubes (circlverses (reset sim) ! i) ! j)
           = cube_id (cluster_cubes (circlverses sim ! i) ! j) \<and>
         num_dots (cluster_cubes (circlverses (reset sim) ! i) ! j)
           = num_dots (cluster_cubes (circlverses sim ! i) ! j) \<and>
         dots (cluster_cubes (circlverses (reset sim) ! i) ! j)
           = dots (cluster_cubes (circlverses sim ! i) ! j) \<and>
         num_dependents (cluster_cubes (circlverses (reset sim) ! i) ! j)
           = num_dependents (cluster_cubes (circlverses sim ! i) ! j) \<and>
         location (cluster_cubes (circlverses (reset sim) ! i) ! j)
           = location (cluster_cubes (circlverses sim ! i) ! j) \<and>
         savings_rate (cluster_cubes (circlverses (reset sim) ! i) ! j)
           = savings_rate (cluster_cubes (circlverses sim ! i) ! j) \<and>
         monthly_expenses (cluster_cubes (circlverses (reset sim) ! i) ! j)
           = monthly_expenses (cluster_cubes (circlverses sim ! i) ! j)))"
  by (simp add: reset_def)

theorem reset_effect_witness:
  "current_month worn_sim = 2 \<and> current_month (reset worn_sim) = 0 \<and>
   length (circlverses (reset worn_sim)) = 1 \<and>
   cv_wealth_history (circlverses (reset worn_sim) ! 0) = [] \<and>
   length (cluster_cubes (circlverses (reset worn_sim) ! 0)) = 1 \<and>
   current_wealth (cluster_cubes (circlverses (reset worn_sim) ! 0) ! 0) = 0 \<and>
   wealth_history (cluster_cubes (circlverses (reset worn_sim) ! 0) ! 0) = [] \<and>
   dots (cluster_cubes (circlverses (reset worn_sim) ! 0) ! 0) = dots idle_cube \<and>
   monthly_expenses (cluster_cubes (circlverses (reset worn_sim) ! 0) ! 0) = 3600"
  using reset_effect [of worn_sim]
  by (simp add: worn_sim_def reset_def scenario_town_def add_cluster_cube_def new_Circlverse_def
      idle_cube_def scenario_cube_eq)

lemma reset_is_paused: "is_paused (reset sim) = is_paused sim"
  by (simp add: reset_def)

lemma run_until_paused: "is_paused sim \<Longrightarrow> run_until d t sim = (None, sim)"
  by (simp add: run_until_def run_until_loop_paused)

lemma run_ops_paused:
  "is_paused sim \<Longrightarrow> list_all stepping ops \<Longrightarrow> run_ops ops sim = (None, sim)"
proof (induction ops)
  case Nil
  then show ?case by simp
next
  case (Cons x xs)
  from Cons.prems have "perform x sim = (None, sim)"
    by (cases x) (simp_all add: step_paused run_until_paused)
  with Cons show ?case by simp
qed

text \<open>
  Claim C10. \<^verbatim>\<open>reset\<close> leaves the paused flag as it was, set or not. After the reset
  of a paused simulation \<^verbatim>\<open>step\<close> and \<^verbatim>\<open>run_until\<close> return without raising and
  change nothing, and so does every sequence of such calls: the flag stays set until
  \<^verbatim>\<open>resume\<close> is called.
\<close>

theorem reset_keeps_paused:
  "is_paused (reset sim) = is_paused sim \<and>
   (is_paused sim \<longrightarrow>
      step d n (reset sim) = (None, reset sim) \<and>
      run_until d' t (reset sim) = (None, reset sim) \<and>
      (list_all stepping ops \<longrightarrow> run_ops ops (reset sim) = (None, reset sim)))"
  by (simp add: reset_is_paused step_paused run_until_paused run_ops_paused)

theorem reset_keeps_paused_witness:
  "is_paused worn_sim \<and> is_paused (reset worn_sim) \<and>
   step no_variance 5 (reset worn_sim) = (None, reset worn_sim) \<and>
   run_until no_variances 12 (reset worn_sim) = (None, reset worn_sim) \<and>
   run_ops [Step no_variance 3, RunUntil no_variances 12] (reset worn_sim)
     = (None, reset worn_sim) \<and>
   \<not> is_paused scenario_sim \<and> \<not> is_paused (reset scenario_sim)"
  using reset_keeps_paused [of worn_sim no_variance 5 no_variances 12
      "[Step no_variance 3, RunUntil no_variances 12]"]
    reset_keeps_paused [of scenario_sim no_variance 5 no_variances 12 "[]"]
  by (simp add: worn_sim_def scenario_sim_def add_circlverse_def new_CircleverseSimulation_def)

section \<open>Statistics\<close>

lemma py_min_Inr: "xs \<noteq> [] \<Longrightarrow> \<exists>v. py_min xs = Inr v"
  by (cases xs) (simp_all add: py_min_def)

lemma py_max_Inr: "xs \<noteq> [] \<Longrightarrow> \<exists>v. py_max xs = Inr v"
  by (cases xs) (simp_all add: py_max_def)

lemma py_div_length: "xs \<noteq> [] \<Longrightarrow> py_div a (real (length xs)) = Inr (a / real (length xs))"
  by (simp add: py_div_def)

lemma py_index_middle:
  assumes "xs \<noteq> []"
  shows "py_index xs (int (length xs) div 2) = Inr (xs ! (length xs div 2))"
proof -
  from assms have "0 < length xs" by simp
  then have "0 \<le> int (length xs) div 2" "int (length xs) div 2 < int (length xs)" by linarith+
  moreover have "nat (int (length xs) div 2) = length xs div 2" by (simp add: nat_div_distrib)
  ultimately show ?thesis by (simp add: py_index_def)
qed

lemma wealth_distribution_nonempty:
  assumes "cluster_cubes cv \<noteq> []"
  shows "\<exists>mn mx. get_wealth_distribution cv =
    Inr [(''min'', mn), (''max'', mx),
         (''mean'', sum_list (map current_wealth (cluster_cubes cv)) / real (length (cluster_cubes cv))),
         (''median'', sort (map current_wealth (cluster_cubes cv)) ! (length (cluster_cubes cv) div 2)),
         (''total'', sum_list (map current_wealth (cluster_cubes cv)))]"
proof -
  let ?ws = "map current_wealth (cluster_cubes cv)"
  from assms have ne: "?ws \<noteq> []" by simp
  then obtain mn mx where m: "py_min ?ws = Inr mn" "py_max ?ws = Inr mx"
    using py_min_Inr py_max_Inr by blast
  from ne have "sort ?ws \<noteq> []" by (metis length_sort length_0_conv)
  from py_index_middle [OF this]
  have i: "py_index (sort ?ws) (int (length ?ws) div 2) = Inr (sort ?ws ! (length ?ws div 2))"
    by simp
  from assms m i py_div_length [OF ne] show ?thesis
    by (simp add: get_wealth_distribution_def Let_def)
qed

lemma global_statistics_Inr: "\<exists>m. get_global_statistics sim = Inr m"
proof -
  let ?ws = "concat (map (\<lambda>cv. map current_wealth (cluster_cubes cv)) (circlverses sim))"
  show ?thesis
  proof (cases "?ws = []")
    case True
    then show ?thesis by (simp add: get_global_statistics_def)
  next
    case False
    then obtain mn mx where m: "py_min ?ws = Inr mn" "py_max ?ws = Inr mx"
      using py_min_Inr py_max_Inr by blast
    from False m py_div_length [OF False] show ?thesis
      by (simp add: get_global_statistics_def Let_def)
  qed
qed

lemma quad_distribution:
  "get_wealth_distribution (town_with_wealths [100, 0, 50, 70]) =
     Inr [(''min'', 0), (''max'', 100), (''mean'', 55), (''median'', 70), (''total'', 220)]"
  by (simp add: town_with_wealths_def new_Circlverse_def get_wealth_distribution_def
      py_min_def py_max_def py_div_def py_index_def Let_def)

text \<open>
  Claim C9. \<^verbatim>\<open>get_wealth_distribution\<close> of a community without households is the
  empty dictionary, and so is \<^verbatim>\<open>get_global_statistics\<close> of a simulation none of whose
  communities has a household (a simulation without communities included). In every
  state both queries return a dictionary: no division by zero, no other error. For a
  community with households the entry \<^verbatim>\<open>median\<close> is the element at position
  \<open>n div 2\<close> of the wealths in ascending order.
\<close>

theorem statistics_never_raise:
  "(cluster_cubes cv = [] \<longrightarrow> get_wealth_distribution cv = Inr []) \<and>
   ((\<forall>c\<in>set (circlverses sim). cluster_cubes c = []) \<longrightarrow> get_global_statistics sim = Inr []) \<and>
   (\<exists>m. get_wealth_distribution cv = Inr m) \<and>
   (\<exists>m. get_global_statistics sim = Inr m) \<and>
   (cluster_cubes cv \<noteq> [] \<longrightarrow>
      (\<exists>m. get_wealth_distribution cv = Inr m \<and>
           map_of m ''median'' =
             Some (sort (map current_wealth (cluster_cubes cv)) ! (length (cluster_cubes cv) div 2))))"
proof (intro conjI impI)
  assume "cluster_cubes cv = []"
  then show "get_wealth_distribution cv = Inr []" by (simp add: get_wealth_distribution_def)
next
  assume "\<forall>c\<in>set (circlverses sim). cluster_cubes c = []"
  then have "concat (map (\<lambda>cv. map current_wealth (cluster_cubes cv)) (circlverses sim)) = []"
    by simp
  then show "get_global_statistics sim = Inr []" by (simp add: get_global_statistics_def)
next
  show "\<exists>m. get_wealth_distribution cv = Inr m"
  proof (cases "cluster_cubes cv = []")
    case True
    then show ?thesis by (simp add: get_wealth_distribution_def)
  next
    case False
    from wealth_distribution_nonempty [OF this] show ?thesis by blast
  qed
next
  show "\<exists>m. get_global_statistics sim = Inr m" by (rule global_statistics_Inr)
next
  assume "cluster_cubes cv \<noteq> []"
  from wealth_distribution_nonempty [OF this] obtain mn mx where
    "get_wealth_distribution cv =
    Inr [(''min'', mn), (''max'', mx),
         (''mean'', sum_list (map current_wealth (cluster_cubes cv)) / real (length (cluster_cubes cv))),
         (''median'', sort (map current_wealth (cluster_cubes cv)) ! (length (cluster_cubes cv) div 2)),
         (''total'', sum_list (map current_wealth (cluster_cubes cv)))]" by blast
  then show "\<exists>m. get_wealth_distribution cv = Inr m \<and>
           map_of m ''median'' =
             Some (sort (map current_wealth (cluster_cubes cv)) ! (length (cluster_cubes cv) div 2))"
    by simp
qed

theorem statistics_never_raise_witness:
  "get_wealth_distribution (town_with_wealths []) = Inr [] \<and>
   get_global_statistics (add_circlverse (town_with_wealths []) new_CircleverseSimulation) = Inr [] \<and>
   get_global_statistics new_CircleverseSimulation = Inr [] \<and>
   get_wealth_distribution (town_with_wealths [100, 0, 50, 70]) =
     Inr [(''min'', 0), (''max'', 100), (''mean'', 55), (''median'', 70), (''total'', 220)] \<and>
   sort [100, 0, 50, 70] ! (4 div 2) = (70 :: real)"
  using statistics_never_raise [of "town_with_wealths []"
      "add_circlverse (town_with_wealths []) new_CircleverseSimulation"]
    statistics_never_raise [of "town_with_wealths [100, 0, 50, 70]" new_CircleverseSimulation]
  by (simp add: quad_distribution)
    (simp add: town_with_wealths_def new_Circlverse_def add_circlverse_def
      new_CircleverseSimulation_def)


section \<open>The month counter\<close>

lemma run_until_running:
  "\<not> is_paused sim \<Longrightarrow> sim_has_dots sim \<Longrightarrow>
     \<exists>sim'. run_until d t sim = (None, sim') \<and> \<not> is_paused sim' \<and> sim_has_dots sim'
      \<and> current_month sim' = max (current_month sim) t"
  unfolding run_until_def by (rule run_until_loop_running)

lemma reset_has_dots: "sim_has_dots sim \<Longrightarrow> sim_has_dots (reset sim)"
  by (simp add: sim_has_dots_def cv_has_dots_def has_dots_def reset_def list_all_iff)

lemma perform_clock:
  assumes "sim_has_dots sim" "keeps_dots x"
  shows "\<exists>sim'. perform x sim = (None, sim') \<and> sim_has_dots sim' \<and>
     months_elapsed (is_paused sim) (current_month sim) (x # ops)
       = months_elapsed (is_paused sim') (current_month sim') ops"
proof (cases x)
  case (AddCirclverse cv)
  with assms show ?thesis by (simp add: add_circlverse_def sim_has_dots_def)
next
  case (Step d months)
  show ?thesis
  proof (cases "is_paused sim")
    case True
    with Step assms show ?thesis by (simp add: step_paused)
  next
    case False
    from step_running [OF this assms(1), of d months] obtain s where
      "step d months sim = (None, s)" "\<not> is_paused s" "sim_has_dots s"
      "current_month s = current_month sim + max 0 months" by blast
    with Step False show ?thesis by simp
  qed
next
  case (RunUntil d t)
  show ?thesis
  proof (cases "is_paused sim")
    case True
    with RunUntil assms show ?thesis by (simp add: run_until_def run_until_loop_paused)
  next
    case False
    from run_until_running [OF this assms(1), of d t] obtain s where
      "run_until d t sim = (None, s)" "\<not> is_paused s" "sim_has_dots s"
      "current_month s = max (current_month sim) t" by blast
    with RunUntil False show ?thesis by simp
  qed
next
  case Pause
  with assms show ?thesis by (simp add: pause_def sim_has_dots_def)
next
  case Resume
  with assms show ?thesis by (simp add: resume_def sim_has_dots_def)
next
  case Reset
  from reset_has_dots [OF assms(1)] Reset show ?thesis by (simp add: reset_def)
next
  case (Touch f)
  with assms show ?thesis by (simp add: sim_has_dots_def)
qed

lemma run_ops_clock:
  "sim_has_dots sim \<Longrightarrow> list_all keeps_dots ops \<Longrightarrow>
     \<exists>sim'. run_ops ops sim = (None, sim') \<and>
       current_month sim' = months_elapsed (is_paused sim) (current_month sim) ops"
proof (induction ops arbitrary: sim)
  case Nil
  then show ?case by simp
next
  case (Cons x xs)
  from Cons.prems have kx: "keeps_dots x" and kxs: "list_all keeps_dots xs" by simp_all
  from perform_clock [OF Cons.prems(1) kx, of xs] obtain s1 where s1:
    "perform x sim = (None, s1)" "sim_has_dots s1"
    "months_elapsed (is_paused sim) (current_month sim) (x # xs)
       = months_elapsed (is_paused s1) (current_month s1) xs" by blast
  from Cons.IH [OF s1(2) kxs] obtain s2 where "run_ops xs s1 = (None, s2)"
    "current_month s2 = months_elapsed (is_paused s1) (current_month s1) xs" by blast
  with s1 show ?case by simp
qed

lemma months_elapsed_single_steps:
  "list_all single_step ops \<Longrightarrow> months_elapsed False m ops = m + int (length ops)"
proof (induction ops arbitrary: m)
  case Nil
  then show ?case by simp
next
  case (Cons x xs)
  then show ?case by (cases x) simp_all
qed

lemma step_calls_single_steps:
  "list_all single_step ops \<Longrightarrow> step_calls n ops = n + length ops"
proof (induction ops arbitrary: n)
  case Nil
  then show ?case by simp
next
  case (Cons x xs)
  then show ?case by (cases x) simp_all
qed

lemma single_steps_keep_dots: "list_all single_step ops \<Longrightarrow> list_all keeps_dots ops"
proof (induction ops)
  case Nil
  then show ?case by simp
next
  case (Cons x xs)
  then show ?case by (cases x) simp_all
qed

lemma new_simulation_has_dots: "sim_has_dots new_CircleverseSimulation"
  by (simp add: sim_has_dots_def new_CircleverseSimulation_def)

lemma scenario_sim_has_dots: "sim_has_dots scenario_sim"
  by (simp add: sim_has_dots_def cv_has_dots_def has_dots_def scenario_sim_def add_circlverse_def
      new_CircleverseSimulation_def scenario_town_def add_cluster_cube_def new_Circlverse_def
      scenario_cube_eq)

text \<open>
  Claim C4, as the specification states it, fails: one call \<^verbatim>\<open>step(2)\<close> on the
  running simulation of the scenario returns and leaves the counter at 2, and one call
  was made.
\<close>

theorem month_counter_counterexample:
  "fst (run_ops [Step no_variance 2] scenario_sim) = None \<and>
   current_month (snd (run_ops [Step no_variance 2] scenario_sim)) = 2 \<and>
   int (step_calls 0 [Step no_variance 2]) = 1 \<and>
   current_month (snd (run_ops [Step no_variance 2] scenario_sim))
     \<noteq> int (step_calls 0 [Step no_variance 2])"
proof -
  have np: "\<not> is_paused scenario_sim" "current_month scenario_sim = 0"
    by (simp_all add: scenario_sim_def add_circlverse_def new_CircleverseSimulation_def)
  from step_running [OF np(1) scenario_sim_has_dots, of no_variance 2] obtain s where
    "step no_variance 2 scenario_sim = (None, s)"
    "current_month s = current_month scenario_sim + max 0 2"
    by blast
  with np show ?thesis by simp
qed

text \<open>
  Claim C4, amended. In a simulation whose households all have a member list, after
  any sequence of operations that keep it so, the counter holds the months simulated
  since construction or the last reset: a call \<^verbatim>\<open>step(months)\<close> made while the
  simulation is not paused adds \<open>max 0 months\<close>, a call made while it is paused adds
  nothing, \<^verbatim>\<open>run_until(t)\<close> made while it is not paused raises the counter to \<open>max\<close>
  of itself and \<open>t\<close>, and \<^verbatim>\<open>reset\<close> sets it to 0; no operation raises. When every
  operation since construction is \<^verbatim>\<open>step(1)\<close>, the counter is the number of calls.
\<close>

theorem month_counter_counts_months:
  "(sim_has_dots sim \<and> list_all keeps_dots ops \<longrightarrow>
      (\<exists>sim'. run_ops ops sim = (None, sim') \<and>
         current_month sim' = months_elapsed (is_paused sim) (current_month sim) ops)) \<and>
   (list_all keeps_dots ops \<longrightarrow>
      (\<exists>sim'. run_ops ops new_CircleverseSimulation = (None, sim') \<and>
         current_month sim' = months_elapsed False 0 ops)) \<and>
   (list_all single_step ops \<longrightarrow>
      (\<exists>sim'. run_ops ops new_CircleverseSimulation = (None, sim') \<and>
         current_month sim' = int (step_calls 0 ops)))"
proof (intro conjI impI)
  assume "sim_has_dots sim \<and> list_all keeps_dots ops"
  then show "\<exists>sim'. run_ops ops sim = (None, sim') \<and>
      current_month sim' = months_elapsed (is_paused sim) (current_month sim) ops"
    by (simp add: run_ops_clock)
next
  assume "list_all keeps_dots ops"
  from run_ops_clock [OF new_simulation_has_dots this]
  show "\<exists>sim'. run_ops ops new_CircleverseSimulation = (None, sim') \<and>
      current_month sim' = months_elapsed False 0 ops"
    by (simp add: new_CircleverseSimulation_def)
next
  assume a: "list_all single_step ops"
  from run_ops_clock [OF new_simulation_has_dots single_steps_keep_dots [OF a]]
  have "\<exists>sim'. run_ops ops new_CircleverseSimulation = (None, sim') \<and>
      current_month sim' = months_elapsed False 0 ops"
    by (simp add: new_CircleverseSimulation_def)
  moreover from a have "months_elapsed False 0 ops = int (step_calls 0 ops)"
    by (simp add: months_elapsed_single_steps step_calls_single_steps)
  ultimately show "\<exists>sim'. run_ops ops new_CircleverseSimulation = (None, sim') \<and>
         current_month sim' = int (step_calls 0 ops)" by simp
qed

lemma boom_keeps_dots: "keeps_dots (Touch boom)"
  by (simp add: boom_def cv_has_dots_def list_all_iff)

lemma scenario_town_has_dots: "cv_has_dots scenario_town"
  by (simp add: cv_has_dots_def has_dots_def scenario_town_def add_cluster_cube_def
      new_Circlverse_def scenario_cube_eq)

theorem month_counter_counts_months_witness:
  "sim_has_dots scenario_sim \<and>
   list_all keeps_dots [Step no_variance 2, Pause, Step no_variance 5, Touch boom, Resume,
     RunUntil no_variances 4, AddCirclverse scenario_town, Step no_variance (- 3)] \<and>
   fst (run_ops [Step no_variance 2, Pause, Step no_variance 5, Touch boom, Resume,
     RunUntil no_variances 4, AddCirclverse scenario_town, Step no_variance (- 3)] scenario_sim)
     = None \<and>
   current_month (snd (run_ops [Step no_variance 2, Pause, Step no_variance 5, Touch boom, Resume,
     RunUntil no_variances 4, AddCirclverse scenario_town, Step no_variance (- 3)] scenario_sim))
     = 4 \<and>
   current_month (snd (run_ops [Step no_variance 1, Step no_variance 1, Step no_variance 1]
     new_CircleverseSimulation)) = 3 \<and>
   step_calls 0 [Step no_variance 1, Step no_variance 1, Step no_variance 1] = 3"
proof -
  have np: "is_paused scenario_sim = False" "current_month scenario_sim = 0"
    by (simp_all add: scenario_sim_def add_circlverse_def new_CircleverseSimulation_def)
  have k: "list_all keeps_dots [Step no_variance 2, Pause, Step no_variance 5, Touch boom, Resume,
     RunUntil no_variances 4, AddCirclverse scenario_town, Step no_variance (- 3)]"
    using boom_keeps_dots scenario_town_has_dots by simp
  from month_counter_counts_months [of scenario_sim "[Step no_variance 2, Pause,
      Step no_variance 5, Touch boom, Resume, RunUntil no_variances 4,
      AddCirclverse scenario_town, Step no_variance (- 3)]"] scenario_sim_has_dots k
  obtain s where "run_ops [Step no_variance 2, Pause, Step no_variance 5, Touch boom, Resume,
      RunUntil no_variances 4, AddCirclverse scenario_town, Step no_variance (- 3)] scenario_sim
      = (None, s)"
    "current_month s = months_elapsed (is_paused scenario_sim) (current_month scenario_sim)
      [Step no_variance 2, Pause, Step no_variance 5, Touch boom, Resume,
      RunUntil no_variances 4, AddCirclverse scenario_town, Step no_variance (- 3)]" by blast
  then have a: "fst (run_ops [Step no_variance 2, Pause, Step no_variance 5, Touch boom, Resume,
     RunUntil no_variances 4, AddCirclverse scenario_town, Step no_variance (- 3)] scenario_sim)
     = None \<and>
   current_month (snd (run_ops [Step no_variance 2, Pause, Step no_variance 5, Touch boom, Resume,
     RunUntil no_variances 4, AddCirclverse scenario_town, Step no_variance (- 3)] scenario_sim))
     = 4"
    by (simp add: np)
  from month_counter_counts_months [of scenario_sim
      "[Step no_variance 1, Step no_variance 1, Step no_variance 1]"]
  obtain s' where "run_ops [Step no_variance 1, Step no_variance 1, Step no_variance 1]
        new_CircleverseSimulation = (None, s')"
    "current_month s' = int (step_calls 0 [Step no_variance 1, Step no_variance 1, Step no_variance 1])"
    by auto
  then have b: "current_month (snd (run_ops [Step no_variance 1, Step no_variance 1, Step no_variance 1]
     new_CircleverseSimulation)) = 3"
    by simp
  from a b k scenario_sim_has_dots show ?thesis by simp
qed


section \<open>Rounding to doubles\<close>

lemma round_even_of_int: "round_even (of_int z) = z"
  by (simp add: round_even_def)

text \<open>Evaluating \<open>binary64\<close>: \<open>q\<close> is the weight of the last bit of the result.\<close>

lemma binary64_eval:
  assumes q: "q = 2 powr of_int e"
    and lo: "2 ^ 52 * q \<le> \<bar>x\<bar>" and hi: "\<bar>x\<bar> < 2 ^ 53 * q"
    and r: "round_even (x / q) = n"
  shows "binary64 x = of_int n * q"
proof -
  have qpos: "0 < q" by (simp add: q)
  from lo qpos have xpos: "0 < \<bar>x\<bar>"
    by (smt (verit) mult_pos_pos zero_less_power)
  then have x0: "x \<noteq> 0" by simp
  have "2 powr (of_int (e + 52)) = 2 ^ 52 * q"
    by (simp add: q powr_add)
  moreover have "2 powr (of_int (e + 52) + 1) = 2 ^ 53 * q"
    by (simp add: q powr_add)
  ultimately have "\<lfloor>log 2 \<bar>x\<bar>\<rfloor> = e + 52"
    using floor_log_eq_powr_iff [of "\<bar>x\<bar>" 2 "e + 52"] xpos lo hi by simp
  then have "\<lfloor>log 2 \<bar>x\<bar>\<rfloor> - 52 = e" by simp
  with x0 r show ?thesis by (simp add: binary64_def q)
qed

lemma binary64_at:
  assumes v: "x * 2 ^ k = v" and lo: "2 ^ 52 \<le> \<bar>v\<bar>" and hi: "\<bar>v\<bar> < 2 ^ 53"
    and r: "round_even v = n"
  shows "binary64 x = of_int n / 2 ^ k"
proof -
  have q: "(1 / 2 ^ k :: real) = 2 powr of_int (- int k)"
    by (simp add: powr_minus powr_realpow divide_simps)
  have a: "\<bar>v\<bar> = \<bar>x\<bar> * 2 ^ k" unfolding v [symmetric] by (simp add: abs_mult)
  have "binary64 x = of_int n * (1 / 2 ^ k)"
  proof (rule binary64_eval [OF q])
    show "2 ^ 52 * (1 / 2 ^ k) \<le> \<bar>x\<bar>" using lo a by (simp add: field_simps)
    show "\<bar>x\<bar> < 2 ^ 53 * (1 / 2 ^ k)" using hi a by (simp add: field_simps)
    show "round_even (x / (1 / 2 ^ k)) = n" using r v by simp
  qed
  then show ?thesis by simp
qed

lemma binary64_0: "binary64 0 = 0"
  by (simp add: binary64_def)

lemma binary64_of_int:
  assumes "\<bar>m\<bar> < 2 ^ 53"
  shows "binary64 (of_int m) = of_int m"
proof (cases "m = 0")
  case True
  then show ?thesis by (simp add: binary64_0)
next
  case False
  define e where "e = \<lfloor>log 2 \<bar>real_of_int m\<bar>\<rfloor> - 52"
  from False have "1 \<le> \<bar>m\<bar>" by simp
  then have "real_of_int 1 \<le> real_of_int \<bar>m\<bar>" by (simp only: of_int_le_iff)
  then have pos: "1 \<le> \<bar>real_of_int m\<bar>" by simp
  from assms have "real_of_int \<bar>m\<bar> < real_of_int (2 ^ 53)" by (simp only: of_int_less_iff)
  then have "\<bar>real_of_int m\<bar> < 2 ^ 53" by simp
  then have "\<bar>real_of_int m\<bar> < 2 powr 53" by simp
  with pos have "log 2 \<bar>real_of_int m\<bar> < 53" by (simp add: log_less_iff)
  then have "\<lfloor>log 2 \<bar>real_of_int m\<bar>\<rfloor> \<le> 52" by linarith
  then have e0: "e \<le> 0" by (simp add: e_def)
  define k where "k = nat (- e)"
  from e0 have ek: "e = - int k" by (simp add: k_def)
  have q: "2 powr of_int e = (1 / 2 ^ k :: real)"
    by (simp add: ek powr_minus powr_realpow divide_simps)
  have "real_of_int m / 2 powr of_int e = of_int (m * 2 ^ k)" by (simp add: q)
  then have "round_even (real_of_int m / 2 powr of_int e) = m * 2 ^ k"
    by (simp only: round_even_of_int)
  moreover from False have "binary64 (of_int m)
      = of_int (round_even (real_of_int m / 2 powr of_int e)) * 2 powr of_int e"
    by (simp add: binary64_def e_def)
  ultimately show ?thesis by (simp add: q)
qed

lemma tenth_is_a_double: "binary64 (1 / 10) = tenth \<and> binary64 tenth = tenth"
proof
  have "binary64 (1 / 10) = of_int 7205759403792794 / 2 ^ 56"
    by (rule binary64_at [where v = "36028797018963968 / 5"]) (simp_all add: round_even_def)
  then show "binary64 (1 / 10) = tenth" by (simp add: tenth_def)
  have "binary64 tenth = of_int 7205759403792794 / 2 ^ 56"
    by (rule binary64_at [where v = "7205759403792794"]) (simp_all add: round_even_def tenth_def)
  then show "binary64 tenth = tenth" by (simp add: tenth_def)
qed

lemma gini_cumsum_five_tenths:
  "gini_cumsum binary64 [tenth, tenth, tenth, tenth, tenth] = of_int (- 4503599627370496) / 2 ^ 106"
proof -
  define p1 where "p1 = binary64 (tenth * real_of_int (- 4))"
  define c1 where "c1 = binary64 (0 + p1)"
  define p2 where "p2 = binary64 (tenth * real_of_int (- 2))"
  define c2 where "c2 = binary64 (c1 + p2)"
  define p3 where "p3 = binary64 (tenth * real_of_int 0)"
  define c3 where "c3 = binary64 (c2 + p3)"
  define p4 where "p4 = binary64 (tenth * real_of_int 2)"
  define c4 where "c4 = binary64 (c3 + p4)"
  define p5 where "p5 = binary64 (tenth * real_of_int 4)"
  define c5 where "c5 = binary64 (c4 + p5)"
  have "enumerate 0 [tenth, tenth, tenth, tenth, tenth]
      = [(0, tenth), (1, tenth), (2, tenth), (3, tenth), (4, tenth)]"
    by (simp add: numeral_eq_Suc)
  then have unfolded: "gini_cumsum binary64 [tenth, tenth, tenth, tenth, tenth] = c5"
    by (simp add: gini_cumsum_def c5_def c4_def c3_def c2_def c1_def p1_def p2_def p3_def
        p4_def p5_def)
  have v_p1: "p1 = of_int (- 7205759403792794) / 2 ^ 54"
    unfolding p1_def
    by (rule binary64_at [where v = "- 7205759403792794"]) (simp_all add: round_even_def tenth_def)
  have v_c1: "c1 = of_int (- 7205759403792794) / 2 ^ 54"
    unfolding c1_def v_p1
    by (rule binary64_at [where v = "- 7205759403792794"]) (simp_all add: round_even_def)
  have v_p2: "p2 = of_int (- 7205759403792794) / 2 ^ 55"
    unfolding p2_def
    by (rule binary64_at [where v = "- 7205759403792794"]) (simp_all add: round_even_def tenth_def)
  have v_c2: "c2 = of_int (- 5404319552844596) / 2 ^ 53"
    unfolding c2_def v_c1 v_p2
    by (rule binary64_at [where v = "- 10808639105689191 / 2"]) (simp_all add: round_even_def)
  have v_p3: "p3 = 0"
    unfolding p3_def by (simp add: binary64_0)
  have v_c3: "c3 = of_int (- 5404319552844596) / 2 ^ 53"
    unfolding c3_def v_c2 v_p3
    by (rule binary64_at [where v = "- 5404319552844596"]) (simp_all add: round_even_def)
  have v_p4: "p4 = of_int 7205759403792794 / 2 ^ 55"
    unfolding p4_def
    by (rule binary64_at [where v = "7205759403792794"]) (simp_all add: round_even_def tenth_def)
  have v_c4: "c4 = of_int (- 7205759403792795) / 2 ^ 54"
    unfolding c4_def v_c3 v_p4
    by (rule binary64_at [where v = "- 7205759403792795"]) (simp_all add: round_even_def)
  have v_p5: "p5 = of_int 7205759403792794 / 2 ^ 54"
    unfolding p5_def
    by (rule binary64_at [where v = "7205759403792794"]) (simp_all add: round_even_def tenth_def)
  have v_c5: "c5 = of_int (- 4503599627370496) / 2 ^ 106"
    unfolding c5_def v_c4 v_p5
    by (rule binary64_at [where v = "- 4503599627370496"]) (simp_all add: round_even_def)
  from unfolded v_c5 show ?thesis by simp
qed

lemma py_sum_five_tenths:
  "py_sum binary64 [tenth, tenth, tenth, tenth, tenth] = of_int 4503599627370496 / 2 ^ 53"
proof -
  define s1 where "s1 = binary64 (0 + tenth)"
  define s2 where "s2 = binary64 (s1 + tenth)"
  define s3 where "s3 = binary64 (s2 + tenth)"
  define s4 where "s4 = binary64 (s3 + tenth)"
  define s5 where "s5 = binary64 (s4 + tenth)"
  have unfolded: "py_sum binary64 [tenth, tenth, tenth, tenth, tenth] = s5"
    by (simp add: py_sum_def s5_def s4_def s3_def s2_def s1_def)
  have v1: "s1 = of_int 7205759403792794 / 2 ^ 56"
    unfolding s1_def
    by (rule binary64_at [where v = "7205759403792794"]) (simp_all add: round_even_def tenth_def)
  have v2: "s2 = of_int 7205759403792794 / 2 ^ 55"
    unfolding s2_def v1
    by (rule binary64_at [where v = "7205759403792794"]) (simp_all add: round_even_def tenth_def)
  have v3: "s3 = of_int 5404319552844596 / 2 ^ 54"
    unfolding s3_def v2
    by (rule binary64_at [where v = "10808639105689191 / 2"])
      (simp_all add: round_even_def tenth_def)
  have v4: "s4 = of_int 7205759403792794 / 2 ^ 54"
    unfolding s4_def v3
    by (rule binary64_at [where v = "14411518807585589 / 2"])
      (simp_all add: round_even_def tenth_def)
  have v5: "s5 = of_int 4503599627370496 / 2 ^ 53"
    unfolding s5_def v4
    by (rule binary64_at [where v = "18014398509481985 / 4"])
      (simp_all add: round_even_def tenth_def)
  from unfolded v5 show ?thesis by simp
qed


section \<open>The Gini coefficient\<close>

lemma fold_enumerate_sum:
  "fold (\<lambda>(i, w) acc. acc + w * g i) (enumerate k xs) (a :: real)
     = a + (\<Sum>i<length xs. xs ! i * g (k + i))"
proof (induction xs arbitrary: k a)
  case Nil
  then show ?case by simp
next
  case (Cons x xs)
  have "fold (\<lambda>(i, w) acc. acc + w * g i) (enumerate k (x # xs)) a
      = fold (\<lambda>(i, w) acc. acc + w * g i) (enumerate (Suc k) xs) (a + x * g k)"
    by simp
  also have "\<dots> = a + x * g k + (\<Sum>i<length xs. xs ! i * g (Suc k + i))"
    by (rule Cons.IH)
  also have "\<dots> = a + (\<Sum>i<length (x # xs). (x # xs) ! i * g (k + i))"
    by (simp add: sum.lessThan_Suc_shift del: sum.lessThan_Suc)
  finally show ?case .
qed

lemma gini_cumsum_exact:
  "gini_cumsum (\<lambda>x. x) ws
     = (\<Sum>i<length ws. ws ! i * (2 * (real i + 1) - real (length ws) - 1))"
proof -
  have "gini_cumsum (\<lambda>x. x) ws
      = 0 + (\<Sum>i<length ws. ws ! i * real_of_int (2 * (int (0 + i) + 1) - int (length ws) - 1))"
    unfolding gini_cumsum_def
    by (rule fold_enumerate_sum [where g = "\<lambda>i. real_of_int (2 * (int i + 1) - int (length ws) - 1)"])
  then show ?thesis by simp
qed

lemma py_sum_exact: "py_sum (\<lambda>x. x) xs = sum_list xs"
proof -
  have "fold (\<lambda>x acc. acc + x) xs a = a + sum_list xs" for a :: real
    by (induction xs arbitrary: a) simp_all
  from this [of 0] show ?thesis by (simp add: py_sum_def)
qed

lemma sum_list_insort: "sum_list (insort x xs) = x + sum_list (xs :: real list)"
  by (induction xs) simp_all

lemma sum_list_sort: "sum_list (sort xs) = sum_list (xs :: real list)"
  by (induction xs) (simp_all add: sum_list_insort)

lemma sort_constant:
  assumes "\<forall>x\<in>set xs. x = (w :: real)"
  shows "sort xs = replicate (length xs) w"
proof -
  from assms have "xs = replicate (length xs) w"
    by (simp add: replicate_length_same)
  moreover have "sort (replicate (length xs) w) = replicate (length xs) w"
    by (rule sorted_sort_id) (simp add: sorted_replicate)
  ultimately show ?thesis by metis
qed

text \<open>
  Identical wealths \<open>w\<close> under a rounding that leaves the multiples \<open>w * j\<close> up to a
  bound as they are: the running sums of the two loops are such multiples.
\<close>

lemma py_sum_replicate:
  assumes ex: "\<And>j. \<bar>j\<bar> \<le> B \<Longrightarrow> rnd (w * real_of_int j) = w * real_of_int j"
  shows "int a + int k \<le> B \<Longrightarrow>
     fold (\<lambda>x acc. rnd (acc + x)) (replicate k w) (w * real_of_int (int a))
       = w * real_of_int (int (a + k))"
proof (induction k arbitrary: a)
  case 0
  then show ?case by simp
next
  case (Suc k)
  have e1: "w * real_of_int (int a) + w = w * real_of_int (int (Suc a))"
    by (simp add: algebra_simps)
  have e2: "rnd (w * real_of_int (int (Suc a))) = w * real_of_int (int (Suc a))"
    by (rule ex) (use Suc.prems in simp)
  have "fold (\<lambda>x acc. rnd (acc + x)) (replicate (Suc k) w) (w * real_of_int (int a))
      = fold (\<lambda>x acc. rnd (acc + x)) (replicate k w) (rnd (w * real_of_int (int a) + w))"
    by simp
  also have "\<dots> = fold (\<lambda>x acc. rnd (acc + x)) (replicate k w) (w * real_of_int (int (Suc a)))"
    by (simp only: e1 e2)
  also have "\<dots> = w * real_of_int (int (Suc a + k))"
    by (rule Suc.IH) (use Suc.prems in simp)
  also have "\<dots> = w * real_of_int (int (a + Suc k))" by simp
  finally show ?case .
qed

lemma cumsum_replicate:
  assumes ex: "\<And>j. \<bar>j\<bar> \<le> B \<Longrightarrow> rnd (w * real_of_int j) = w * real_of_int j"
  shows "(\<And>i. a \<le> i \<Longrightarrow> i < a + k \<Longrightarrow> \<bar>g i\<bar> \<le> B) \<Longrightarrow>
     (\<And>m. m \<le> k \<Longrightarrow> \<bar>s + (\<Sum>i = a..<a + m. g i)\<bar> \<le> B) \<Longrightarrow>
     fold (\<lambda>(i, v) c. rnd (c + rnd (v * real_of_int (g i)))) (enumerate a (replicate k w))
       (w * real_of_int s)
       = w * real_of_int (s + (\<Sum>i = a..<a + k. g i))"
proof (induction k arbitrary: a s)
  case 0
  then show ?case by simp
next
  case (Suc k)
  have ga: "\<bar>g a\<bar> \<le> B" using Suc.prems(1) [of a] by simp
  have sa: "\<bar>s + g a\<bar> \<le> B" using Suc.prems(2) [of 1] by simp
  have "rnd (w * real_of_int s + rnd (w * real_of_int (g a)))
      = rnd (w * real_of_int s + w * real_of_int (g a))"
    using ex [OF ga] by simp
  also have "\<dots> = rnd (w * real_of_int (s + g a))" by (simp add: algebra_simps)
  also have "\<dots> = w * real_of_int (s + g a)" using ex [OF sa] .
  finally have first: "rnd (w * real_of_int s + rnd (w * real_of_int (g a)))
      = w * real_of_int (s + g a)" .
  have b1: "\<And>i. Suc a \<le> i \<Longrightarrow> i < Suc a + k \<Longrightarrow> \<bar>g i\<bar> \<le> B"
    using Suc.prems(1) by simp
  have b2: "\<bar>(s + g a) + (\<Sum>i = Suc a..<Suc a + m. g i)\<bar> \<le> B" if "m \<le> k" for m
  proof -
    have "(\<Sum>i = a..<a + Suc m. g i) = g a + (\<Sum>i = Suc a..<Suc a + m. g i)"
      by (simp add: sum.atLeast_Suc_lessThan)
    with Suc.prems(2) [of "Suc m"] that show ?thesis by (simp add: algebra_simps)
  qed
  have "fold (\<lambda>(i, v) c. rnd (c + rnd (v * real_of_int (g i))))
       (enumerate (Suc a) (replicate k w)) (w * real_of_int (s + g a))
       = w * real_of_int ((s + g a) + (\<Sum>i = Suc a..<Suc a + k. g i))"
    by (rule Suc.IH [OF b1 b2])
  moreover have "(\<Sum>i = a..<a + Suc k. g i) = g a + (\<Sum>i = Suc a..<Suc a + k. g i)"
    by (simp add: sum.atLeast_Suc_lessThan)
  ultimately show ?case using first by (simp add: algebra_simps)
qed

lemma rank_weights_sum:
  "(\<Sum>i = 0..<m. 2 * (int i + 1) - int n - 1) = int m * (int m - int n)"
  by (induction m) (simp_all add: algebra_simps)

lemma rank_weights_bound:
  assumes "m \<le> n"
  shows "\<bar>int m * (int m - int n)\<bar> \<le> int n * int n"
proof -
  have "\<bar>int m * (int m - int n)\<bar> = int m * (int n - int m)"
    using assms by (simp add: abs_mult)
  also have "\<dots> \<le> int n * int n"
    using assms by (intro mult_mono) simp_all
  finally show ?thesis .
qed

lemma gini_cumsum_replicate:
  assumes ex: "\<And>j. \<bar>j\<bar> \<le> int n * int n \<Longrightarrow> rnd (w * real_of_int j) = w * real_of_int j"
  shows "gini_cumsum rnd (replicate n w) = 0"
proof (cases "n = 0")
  case True
  then show ?thesis by (simp add: gini_cumsum_def)
next
  case False
  then have nn: "int n \<le> int n * int n" by simp
  define g where "g i = 2 * (int i + 1) - int n - 1" for i
  have gsum: "(\<Sum>i = 0..<m. g i) = int m * (int m - int n)" for m
    unfolding g_def by (rule rank_weights_sum)
  have b1: "\<bar>g i\<bar> \<le> int n * int n" if "0 \<le> i" "i < 0 + n" for i
  proof -
    from that have "\<bar>g i\<bar> \<le> int n" by (simp add: g_def abs_le_iff)
    with nn show ?thesis by linarith
  qed
  have b2: "\<bar>0 + (\<Sum>i = 0..<0 + m. g i)\<bar> \<le> int n * int n" if "m \<le> n" for m
    using rank_weights_bound [OF that] by (simp add: gsum)
  have "fold (\<lambda>(i, v) c. rnd (c + rnd (v * real_of_int (g i)))) (enumerate 0 (replicate n w))
       (w * real_of_int 0)
       = w * real_of_int (0 + (\<Sum>i = 0..<0 + n. g i))"
    by (rule cumsum_replicate [OF ex b1 b2])
  then have "fold (\<lambda>(i, v) c. rnd (c + rnd (v * real_of_int (g i)))) (enumerate 0 (replicate n w)) 0
       = 0"
    by (simp add: gsum)
  moreover have "gini_cumsum rnd (replicate n w)
      = fold (\<lambda>(i, v) c. rnd (c + rnd (v * real_of_int (g i)))) (enumerate 0 (replicate n w)) 0"
    unfolding gini_cumsum_def g_def by simp
  ultimately show ?thesis by (simp only:)
qed

lemma gini_identical:
  assumes same: "\<forall>c\<in>set (cluster_cubes cv). current_wealth c = w"
    and ex: "\<forall>j. \<bar>j\<bar> \<le> int (length (cluster_cubes cv)) * int (length (cluster_cubes cv))
        \<longrightarrow> rnd (w * real_of_int j) = w * real_of_int j"
  shows "calculate_gini_coefficient rnd cv = Inr 0"
proof (cases "length (cluster_cubes cv) < 2")
  case True
  then show ?thesis by (auto simp: calculate_gini_coefficient_def)
next
  case False
  define n where "n = length (cluster_cubes cv)"
  from False have n2: "2 \<le> n" by (simp add: n_def)
  from ex have ex': "\<And>j. \<bar>j\<bar> \<le> int n * int n \<Longrightarrow> rnd (w * real_of_int j) = w * real_of_int j"
    by (simp add: n_def)
  from same have srt: "sort (map current_wealth (cluster_cubes cv)) = replicate n w"
    using sort_constant [of "map current_wealth (cluster_cubes cv)" w] by (simp add: n_def)
  have c0: "gini_cumsum rnd (replicate n w) = 0" by (rule gini_cumsum_replicate [OF ex'])
  have "int 0 + int n \<le> int n * int n" using n2 by simp
  from py_sum_replicate [OF ex' this]
  have s: "py_sum rnd (replicate n w) = w * real n" by (simp add: py_sum_def)
  have r0: "rnd 0 = 0" using ex' [of 0] by simp
  show ?thesis
  proof (cases "w = 0")
    case True
    with s srt False show ?thesis by (simp add: calculate_gini_coefficient_def n_def Let_def)
  next
    case w0: False
    have "rnd (real n * (w * real n)) = rnd (w * real_of_int (int n * int n))"
      by (simp add: algebra_simps)
    also have "\<dots> = w * real_of_int (int n * int n)" by (rule ex') simp
    finally have den: "rnd (real n * (w * real n)) = w * real_of_int (int n * int n)" .
    from w0 n2 have "w * real_of_int (int n * int n) \<noteq> 0" by simp
    with den have dne: "rnd (real n * (w * real n)) \<noteq> 0" by simp
    from w0 n2 have sne: "w * real n \<noteq> 0" by simp
    from False srt c0 s sne dne r0 show ?thesis
      by (simp add: calculate_gini_coefficient_def Let_def py_div_def n_def [symmetric])
  qed
qed

lemma binary64_numeral: "(numeral k :: int) < 2 ^ 53 \<Longrightarrow> binary64 (numeral k) = numeral k"
  using binary64_of_int [of "numeral k"] by simp

lemma gini_hundreds: "calculate_gini_coefficient binary64 (town_with_wealths [100, 100, 100]) = Inr 0"
proof (rule gini_identical [where w = 100])
  show "\<forall>c\<in>set (cluster_cubes (town_with_wealths [100, 100, 100])). current_wealth c = 100"
    by (simp add: town_with_wealths_def)
  show "\<forall>j. \<bar>j\<bar> \<le> int (length (cluster_cubes (town_with_wealths [100, 100, 100])))
          * int (length (cluster_cubes (town_with_wealths [100, 100, 100])))
        \<longrightarrow> binary64 (100 * real_of_int j) = 100 * real_of_int j"
  proof (intro allI impI)
    fix j :: int
    assume "\<bar>j\<bar> \<le> int (length (cluster_cubes (town_with_wealths [100, 100, 100])))
          * int (length (cluster_cubes (town_with_wealths [100, 100, 100])))"
    then have "\<bar>j\<bar> \<le> 9" by (simp add: town_with_wealths_def)
    then have "\<bar>100 * j\<bar> < 2 ^ 53" by simp
    from binary64_of_int [OF this] show "binary64 (100 * real_of_int j) = 100 * real_of_int j"
      by simp
  qed
qed

lemma two_thirds: "binary64 (200 / 300) = 6004799503160661 / 9007199254740992"
proof -
  have "binary64 (200 / 300) = of_int 6004799503160661 / 2 ^ 53"
    by (rule binary64_at [where v = "18014398509481984 / 3"]) (simp_all add: round_even_def)
  then show ?thesis by simp
qed

lemma gini_0_0_100:
  "calculate_gini_coefficient binary64 (town_with_wealths [0, 0, 100]) = Inr (binary64 (200 / 300))"
proof -
  have e: "enumerate 0 [0, 0, 100 :: real] = [(0, 0), (1, 0), (2, 100)]"
    by (simp add: numeral_eq_Suc)
  have c: "gini_cumsum binary64 [0, 0, 100] = 200"
    by (simp add: gini_cumsum_def e binary64_0 binary64_numeral)
  have s: "py_sum binary64 [0, 0, 100] = 100"
    by (simp add: py_sum_def binary64_0 binary64_numeral)
  have srt: "sort (map current_wealth (cluster_cubes (town_with_wealths [0, 0, 100]))) = [0, 0, 100]"
    by (simp add: town_with_wealths_def)
  show ?thesis
    unfolding calculate_gini_coefficient_def Let_def srt c s
    by (simp add: town_with_wealths_def binary64_numeral py_div_def)
qed

lemma exact_is_identity: "exact = (\<lambda>x. x)"
  by (rule ext) (simp add: exact_def)


lemma sevens_are_doubles:
  "\<forall>j. \<bar>j\<bar> \<le> int (length (cluster_cubes (town_with_wealths [7, 7, 7, 7, 7])))
          * int (length (cluster_cubes (town_with_wealths [7, 7, 7, 7, 7])))
        \<longrightarrow> binary64 (7 * real_of_int j) = 7 * real_of_int j"
proof (intro allI impI)
  fix j :: int
  assume "\<bar>j\<bar> \<le> int (length (cluster_cubes (town_with_wealths [7, 7, 7, 7, 7])))
          * int (length (cluster_cubes (town_with_wealths [7, 7, 7, 7, 7])))"
  then have "\<bar>j\<bar> \<le> 25" by (simp add: town_with_wealths_def)
  then have "\<bar>7 * j\<bar> < 2 ^ 53" by simp
  from binary64_of_int [OF this] show "binary64 (7 * real_of_int j) = 7 * real_of_int j"
    by simp
qed

lemma exact_30_10_20:
  "(\<Sum>i<3. sort [30, 10, 20] ! i * (2 * (real i + 1) - 3 - 1)) / (3 * sum_list (sort [30, 10, 20]))
     = (2 / 9 :: real)"
  by (simp add: numeral_3_eq_3)


text \<open>
  Claim C3, as the specification states it, fails in the arithmetic of doubles: for
  five households that each hold the wealth 0.1, the loop of
  \<^verbatim>\<open>calculate_gini_coefficient\<close> accumulates \<open>- 1 / 2 ^ 54\<close> instead of 0, the sum of
  the wealths is 0.5, and the coefficient returned is \<open>- 7205759403792794 / 2 ^ 108\<close>,
  about \<open>- 2.2e-17\<close>: not 0, although all wealths are identical.
\<close>

theorem gini_identical_wealths_counterexample:
  "map current_wealth (cluster_cubes (town_with_wealths [tenth, tenth, tenth, tenth, tenth]))
     = [tenth, tenth, tenth, tenth, tenth] \<and>
   calculate_gini_coefficient binary64 (town_with_wealths [tenth, tenth, tenth, tenth, tenth])
     = Inr (- (7205759403792794 / 2 ^ 108)) \<and>
   calculate_gini_coefficient binary64 (town_with_wealths [tenth, tenth, tenth, tenth, tenth])
     \<noteq> Inr 0"
proof -
  let ?ws = "[tenth, tenth, tenth, tenth, tenth]"
  have ws: "map current_wealth (cluster_cubes (town_with_wealths ?ws)) = ?ws"
    by (simp add: town_with_wealths_def)
  have sorted: "sort ?ws = ?ws" by simp
  define c where "c = gini_cumsum binary64 ?ws"
  define s where "s = py_sum binary64 ?ws"
  have s0: "s \<noteq> 0" unfolding s_def py_sum_five_tenths by simp
  have g1: "calculate_gini_coefficient binary64 (town_with_wealths ?ws)
      = bnd (py_div c (binary64 (5 * s))) (\<lambda>q. Inr (binary64 q))"
    using s0 unfolding c_def s_def
    by (simp add: calculate_gini_coefficient_def Let_def ws sorted)
      (simp add: town_with_wealths_def)
  have den: "binary64 (5 * s) = of_int 5629499534213120 / 2 ^ 51"
    unfolding s_def py_sum_five_tenths
    by (rule binary64_at [where v = "5629499534213120"]) (simp_all add: round_even_def)
  have dne: "binary64 (5 * s) \<noteq> 0" unfolding den by simp
  have quo: "binary64 (c / binary64 (5 * s)) = of_int (- 7205759403792794) / 2 ^ 108"
    unfolding den c_def gini_cumsum_five_tenths
    by (rule binary64_at [where v = "- 36028797018963968 / 5"]) (simp_all add: round_even_def)
  have "bnd (py_div c (binary64 (5 * s))) (\<lambda>q. Inr (binary64 q))
      = Inr (binary64 (c / binary64 (5 * s)))"
    using dne by (simp add: py_div_def)
  with g1 quo have "calculate_gini_coefficient binary64 (town_with_wealths ?ws)
      = Inr (of_int (- 7205759403792794) / 2 ^ 108)"
    by (simp only:)
  then have g: "calculate_gini_coefficient binary64 (town_with_wealths ?ws)
      = Inr (- (7205759403792794 / 2 ^ 108))" by simp
  from ws g show ?thesis by simp
qed

text \<open>
  Claim C3, amended. \<^verbatim>\<open>calculate_gini_coefficient\<close> returns exactly 0 when
  there are fewer than two households or the sum of the ascending wealths, as the code
  adds them, is exactly 0, under every rounding. In exact arithmetic, with \<open>n \<ge> 2\<close>
  households, ascending wealths \<open>w\<close> and a total that is not 0, it returns the sum of
  \<open>w[i] * (2 * (i + 1) - n - 1)\<close> divided by \<open>n\<close> times the total, and the code's sum of
  the sorted wealths is the total of the wealths. When all households have the same
  wealth \<open>w\<close>, it returns exactly 0 under every rounding that leaves the multiples
  \<open>w * j\<close> with \<open>\<bar>j\<bar> \<le> n * n\<close> as they are. In the arithmetic of doubles it is 0 for
  the wealths 100, 100, 100, and for 0, 0, 100 it is 200/300 rounded to a double,
  \<open>6004799503160661 / 2 ^ 53\<close>. It never raises in these cases.
\<close>

theorem gini_coefficient_rounded:
  "(length (cluster_cubes cv) < 2 \<or> py_sum rnd (sort (map current_wealth (cluster_cubes cv))) = 0 \<longrightarrow>
      calculate_gini_coefficient rnd cv = Inr 0) \<and>
   (2 \<le> length (cluster_cubes cv) \<and> sum_list (map current_wealth (cluster_cubes cv)) \<noteq> 0 \<longrightarrow>
      calculate_gini_coefficient exact cv =
        Inr ((\<Sum>i<length (cluster_cubes cv).
                sort (map current_wealth (cluster_cubes cv)) ! i
                  * (2 * (real i + 1) - real (length (cluster_cubes cv)) - 1))
             / (real (length (cluster_cubes cv))
                  * sum_list (sort (map current_wealth (cluster_cubes cv)))))) \<and>
   py_sum exact (sort (map current_wealth (cluster_cubes cv)))
     = sum_list (map current_wealth (cluster_cubes cv)) \<and>
   ((\<forall>c\<in>set (cluster_cubes cv). current_wealth c = w) \<and>
    (\<forall>j. \<bar>j\<bar> \<le> int (length (cluster_cubes cv)) * int (length (cluster_cubes cv))
        \<longrightarrow> rnd (w * real_of_int j) = w * real_of_int j) \<longrightarrow>
      calculate_gini_coefficient rnd cv = Inr 0) \<and>
   calculate_gini_coefficient binary64 (town_with_wealths [100, 100, 100]) = Inr 0 \<and>
   calculate_gini_coefficient binary64 (town_with_wealths [0, 0, 100]) = Inr (binary64 (200 / 300)) \<and>
   binary64 (200 / 300) = 6004799503160661 / 9007199254740992"
proof (intro conjI impI)
  assume "length (cluster_cubes cv) < 2
      \<or> py_sum rnd (sort (map current_wealth (cluster_cubes cv))) = 0"
  then show "calculate_gini_coefficient rnd cv = Inr 0"
    by (auto simp: calculate_gini_coefficient_def Let_def)
next
  assume a: "2 \<le> length (cluster_cubes cv) \<and> sum_list (map current_wealth (cluster_cubes cv)) \<noteq> 0"
  then have "cluster_cubes cv \<noteq> []" by auto
  with a show "calculate_gini_coefficient exact cv =
        Inr ((\<Sum>i<length (cluster_cubes cv).
                sort (map current_wealth (cluster_cubes cv)) ! i
                  * (2 * (real i + 1) - real (length (cluster_cubes cv)) - 1))
             / (real (length (cluster_cubes cv))
                  * sum_list (sort (map current_wealth (cluster_cubes cv)))))"
    by (simp add: exact_is_identity calculate_gini_coefficient_def Let_def gini_cumsum_exact
        py_sum_exact sum_list_sort py_div_def)
next
  show "py_sum exact (sort (map current_wealth (cluster_cubes cv)))
     = sum_list (map current_wealth (cluster_cubes cv))"
    by (simp add: exact_is_identity py_sum_exact sum_list_sort)
next
  assume "(\<forall>c\<in>set (cluster_cubes cv). current_wealth c = w) \<and>
    (\<forall>j. \<bar>j\<bar> \<le> int (length (cluster_cubes cv)) * int (length (cluster_cubes cv))
        \<longrightarrow> rnd (w * real_of_int j) = w * real_of_int j)"
  then show "calculate_gini_coefficient rnd cv = Inr 0"
    using gini_identical [of cv w rnd] by blast
next
  show "calculate_gini_coefficient binary64 (town_with_wealths [100, 100, 100]) = Inr 0"
    by (rule gini_hundreds)
next
  show "calculate_gini_coefficient binary64 (town_with_wealths [0, 0, 100])
      = Inr (binary64 (200 / 300))"
    by (rule gini_0_0_100)
next
  show "binary64 (200 / 300) = 6004799503160661 / 9007199254740992" by (rule two_thirds)
qed


theorem gini_coefficient_rounded_witness:
  "calculate_gini_coefficient exact (town_with_wealths [30, 10, 20]) = Inr (2 / 9) \<and>
   calculate_gini_coefficient binary64 (town_with_wealths [42]) = Inr 0 \<and>
   calculate_gini_coefficient exact (town_with_wealths [- 5, 5]) = Inr 0 \<and>
   calculate_gini_coefficient binary64 (town_with_wealths [7, 7, 7, 7, 7]) = Inr 0"
proof -
  have a: "calculate_gini_coefficient exact (town_with_wealths [30, 10, 20]) = Inr (2 / 9)"
    using gini_coefficient_rounded [of "town_with_wealths [30, 10, 20]" exact 0] exact_30_10_20
    by (simp add: town_with_wealths_def new_Circlverse_def)
  have b: "calculate_gini_coefficient binary64 (town_with_wealths [42]) = Inr 0"
    using gini_coefficient_rounded [of "town_with_wealths [42]" binary64 0]
    by (simp add: town_with_wealths_def new_Circlverse_def)
  have c: "calculate_gini_coefficient exact (town_with_wealths [- 5, 5]) = Inr 0"
    using gini_coefficient_rounded [of "town_with_wealths [- 5, 5]" exact 0]
    by (simp add: town_with_wealths_def new_Circlverse_def)
  have d: "calculate_gini_coefficient binary64 (town_with_wealths [7, 7, 7, 7, 7]) = Inr 0"
    using gini_coefficient_rounded [of "town_with_wealths [7, 7, 7, 7, 7]" binary64 7]
      sevens_are_doubles
    by (simp add: town_with_wealths_def new_Circlverse_def)
  from a b c d show ?thesis by simp
qed

end
